theory Spec2Isabelle
  imports Complex_Main
begin

section \<open>JavaScript values\<close>

text \<open>
  The two frontends (the class \<open>SentinelApp\<close> and the React components
  \<open>AnalysisPage\<close> and \<open>EducationPage\<close>) work on what \<open>response.json()\<close> hands them:
  arbitrary JSON. A JavaScript value is therefore a JSON value, \<open>undefined\<close>, or one of
  the members every object literal inherits from \<open>Object.prototype\<close> (\<open>Builtin\<close>, tagged
  with the member's name).

  Strings are lists of code units below 256; \<open>Num\<close> holds the integer-valued numbers
  (no fractional number is ever read by the code modelled here). The properties of an
  \<open>Obj\<close> are its own properties, each key once.
\<close>

datatype jsval =
    Undefined
  | Null
  | Bool bool
  | Num int
  | Str string
  | Arr "jsval list"
  | Obj "(string \<times> jsval) list"
  | Builtin string

datatype thrown =
    TypeError
  | SyntaxError
  | AbortError
  | Error string

text \<open>Truthiness, and the operator \<open>a || b\<close>.\<close>

fun truthy :: "jsval \<Rightarrow> bool" where
  "truthy Undefined = False"
| "truthy Null = False"
| "truthy (Bool b) = b"
| "truthy (Num n) = (n \<noteq> 0)"
| "truthy (Str s) = (s \<noteq> [])"
| "truthy (Arr xs) = True"
| "truthy (Obj kvs) = True"
| "truthy (Builtin n) = True"

definition js_or :: "jsval \<Rightarrow> jsval \<Rightarrow> jsval" where
  "js_or a b = (if truthy a then a else b)"

text \<open>
  Decimal rendering of an integer, as \<open>Number.prototype.toString\<close> does it for
  magnitudes below \<open>10^21\<close>; from there on JavaScript prints an exponent, which is
  outside this rendering. The numbers the program itself prints are 25, 50, 60, 85, 100.
\<close>

definition digit_char :: "nat \<Rightarrow> char" where
  "digit_char d = char_of (48 + d)"

function show_nat :: "nat \<Rightarrow> string" where
  "show_nat n = (if n < 10 then [digit_char n] else show_nat (n div 10) @ [digit_char (n mod 10)])"
  by pat_completeness auto
termination
  by (relation "measure id") auto

declare show_nat.simps [simp del]

definition show_int :: "int \<Rightarrow> string" where
  "show_int i = (if i < 0 then CHR ''-'' # show_nat (nat (- i)) else show_nat (nat i))"

text \<open>
  The names every object inherits from \<open>Object.prototype\<close>. Reading one of them from an
  object literal that has no own property of that name yields the inherited member: a
  function, or for \<open>__proto__\<close> the prototype object itself. All of them are truthy.
\<close>

definition object_prototype_names :: "string list" where
  "object_prototype_names =
     [''constructor'', ''__defineGetter__'', ''__defineSetter__'', ''hasOwnProperty'',
      ''__lookupGetter__'', ''__lookupSetter__'', ''isPrototypeOf'',
      ''propertyIsEnumerable'', ''toString'', ''valueOf'', ''__proto__'',
      ''toLocaleString'']"

text \<open>
  The string form of an inherited member: the prototype object prints as any plain
  object, a function as its source text (here as V8 prints a native function; engines
  differ in the white space).
\<close>

definition builtin_text :: "string \<Rightarrow> string" where
  "builtin_text n =
     (if n = ''__proto__'' then ''[object Object]''
      else ''function '' @ (if n = ''constructor'' then ''Object'' else n) @ ''() { [native code] }'')"

text \<open>
  \<open>ToString\<close>. An array joins its elements with commas, \<open>null\<close> and \<open>undefined\<close>
  elements giving the empty string. An object gives \<open>[object Object]\<close> through the
  inherited \<open>toString\<close>; a parsed JSON object with an own \<open>toString\<close> member shadows
  it with something that cannot be called, the inherited \<open>valueOf\<close> returns the object
  itself, and the conversion throws a TypeError.
\<close>

fun stringifiable :: "jsval \<Rightarrow> bool" where
  "stringifiable (Arr xs) = list_all stringifiable xs"
| "stringifiable (Obj kvs) = (''toString'' \<notin> fst ` set kvs)"
| "stringifiable v = True"

fun js_str :: "jsval \<Rightarrow> string"
  and js_join :: "jsval list \<Rightarrow> string"
  and js_elem :: "jsval \<Rightarrow> string" where
  "js_str Undefined = ''undefined''"
| "js_str Null = ''null''"
| "js_str (Bool b) = (if b then ''true'' else ''false'')"
| "js_str (Num n) = show_int n"
| "js_str (Str s) = s"
| "js_str (Arr xs) = js_join xs"
| "js_str (Obj kvs) = ''[object Object]''"
| "js_str (Builtin n) = builtin_text n"
| "js_join [] = []"
| "js_join [x] = js_elem x"
| "js_join (x # y # ys) = js_elem x @ '','' @ js_join (y # ys)"
| "js_elem Undefined = []"
| "js_elem Null = []"
| "js_elem (Bool b) = js_str (Bool b)"
| "js_elem (Num n) = js_str (Num n)"
| "js_elem (Str s) = s"
| "js_elem (Arr xs) = js_join xs"
| "js_elem (Obj kvs) = js_str (Obj kvs)"
| "js_elem (Builtin n) = js_str (Builtin n)"

definition js_to_string :: "jsval \<Rightarrow> thrown + string" where
  "js_to_string v = (if stringifiable v then Inr (js_str v) else Inl TypeError)"

text \<open>
  \<open>obj[key]\<close> on an object with the given own properties: the own property first, then
  the prototype chain, else \<open>undefined\<close>. The key is converted with \<open>ToString\<close>.
\<close>

definition obj_get :: "(string \<times> jsval) list \<Rightarrow> string \<Rightarrow> jsval" where
  "obj_get props k =
     (case map_of props k of
        Some v \<Rightarrow> v
      | None \<Rightarrow> if k \<in> set object_prototype_names then Builtin k else Undefined)"

definition js_index :: "(string \<times> jsval) list \<Rightarrow> jsval \<Rightarrow> thrown + jsval" where
  "js_index props key =
     (case js_to_string key of
        Inl e \<Rightarrow> Inl e
      | Inr k \<Rightarrow> Inr (obj_get props k))"

text \<open>
  \<open>v.name\<close> for the names the program reads with a dot (\<open>riskLevel\<close>, \<open>summary\<close>,
  \<open>evidence\<close>, \<open>recommendations\<close>, \<open>source\<close>, \<open>status\<close>, \<open>details\<close>, \<open>error\<close>,
  \<open>questions\<close>, \<open>feedback\<close>): none of them is a member of the prototype of a string,
  number, boolean or array, so on those values the read gives \<open>undefined\<close>. On
  \<open>null\<close> and \<open>undefined\<close> it throws.
\<close>

fun js_get :: "jsval \<Rightarrow> string \<Rightarrow> thrown + jsval" where
  "js_get Undefined name = Inl TypeError"
| "js_get Null name = Inl TypeError"
| "js_get (Obj kvs) name = Inr (obj_get kvs name)"
| "js_get v name = Inr Undefined"

section \<open>The risk-level tables\<close>

subsection \<open>SentinelApp\<close>

definition SentinelApp_formatRiskLevel :: "jsval \<Rightarrow> thrown + jsval" where
  "SentinelApp_formatRiskLevel level =
     (let levels = [(''low'', Str ''Low Risk''),
                    (''medium'', Str ''Medium Risk''),
                    (''high'', Str ''High Risk''),
                    (''critical'', Str ''Critical Risk'')]
      in case js_index levels level of
           Inl e \<Rightarrow> Inl e
         | Inr v \<Rightarrow> Inr (js_or v level))"

definition SentinelApp_getRiskPercentage :: "jsval \<Rightarrow> thrown + jsval" where
  "SentinelApp_getRiskPercentage level =
     (let percentages = [(''low'', Num 25),
                         (''medium'', Num 60),
                         (''high'', Num 85),
                         (''critical'', Num 100)]
      in case js_index percentages level of
           Inl e \<Rightarrow> Inl e
         | Inr v \<Rightarrow> Inr (js_or v (Num 50)))"

definition SentinelApp_getRiskDescription :: "jsval \<Rightarrow> thrown + jsval" where
  "SentinelApp_getRiskDescription level =
     (let descriptions =
            [(''low'', Str ''Minimal risk indicators detected. Appears legitimate.''),
             (''medium'', Str ''Multiple suspicious indicators detected. Proceed with caution.''),
             (''high'', Str ''High likelihood of malicious intent. Avoid interaction.''),
             (''critical'', Str ''Confirmed threat. Do not interact under any circumstances.'')]
      in case js_index descriptions level of
           Inl e \<Rightarrow> Inl e
         | Inr v \<Rightarrow> Inr (js_or v (Str ''Risk assessment in progress.'')))"

definition SentinelApp_getStatusBadge :: "jsval \<Rightarrow> thrown + jsval" where
  "SentinelApp_getStatusBadge status =
     (let badges = [(''clean'', Str ''low''),
                    (''suspicious'', Str ''medium''),
                    (''malicious'', Str ''high''),
                    (''recent'', Str ''medium''),
                    (''complete'', Str ''info'')]
      in case js_index badges status of
           Inl e \<Rightarrow> Inl e
         | Inr v \<Rightarrow> Inr (js_or v (Str ''info'')))"

text \<open>
  \<open>status.charAt(0).toUpperCase() + status.slice(1)\<close>. Only a string has \<open>charAt\<close>.
  \<open>toUpperCase\<close> follows Unicode; \<open>ascii_upper\<close> is its restriction to ASCII, where
  the status tags (clean, suspicious, malicious, inconclusive) live, and differs from it
  on a first character beyond ASCII.
\<close>

definition ascii_upper :: "char \<Rightarrow> char" where
  "ascii_upper c =
     (if 97 \<le> (of_char c :: nat) \<and> (of_char c :: nat) \<le> 122
      then char_of ((of_char c :: nat) - 32) else c)"

fun SentinelApp_formatStatus :: "jsval \<Rightarrow> thrown + string" where
  "SentinelApp_formatStatus (Str []) = Inr []"
| "SentinelApp_formatStatus (Str (c # cs)) = Inr (ascii_upper c # cs)"
| "SentinelApp_formatStatus v = Inl TypeError"

subsection \<open>AnalysisPage\<close>

definition AnalysisPage_getRiskBadgeClass :: "jsval \<Rightarrow> thrown + string" where
  "AnalysisPage_getRiskBadgeClass level =
     (case js_to_string level of
        Inl e \<Rightarrow> Inl e
      | Inr s \<Rightarrow> Inr (''badge badge-'' @ s))"

definition AnalysisPage_getRiskPercentage :: "jsval \<Rightarrow> thrown + jsval" where
  "AnalysisPage_getRiskPercentage level =
     (let percentages = [(''low'', Num 25),
                         (''medium'', Num 60),
                         (''high'', Num 85),
                         (''critical'', Num 100)]
      in case js_index percentages level of
           Inl e \<Rightarrow> Inl e
         | Inr v \<Rightarrow> Inr (js_or v (Num 50)))"

definition AnalysisPage_formatRiskLevel :: "jsval \<Rightarrow> thrown + jsval" where
  "AnalysisPage_formatRiskLevel level =
     (let levels = [(''low'', Str ''Low Risk''),
                    (''medium'', Str ''Medium Risk''),
                    (''high'', Str ''High Risk''),
                    (''critical'', Str ''Critical Risk'')]
      in case js_index levels level of
           Inl e \<Rightarrow> Inl e
         | Inr v \<Rightarrow> Inr (js_or v level))"

definition AnalysisPage_getRiskDescription :: "jsval \<Rightarrow> thrown + jsval" where
  "AnalysisPage_getRiskDescription level =
     (let descriptions =
            [(''low'', Str ''Minimal risk indicators detected. Appears legitimate.''),
             (''medium'', Str ''Multiple suspicious indicators detected. Proceed with caution.''),
             (''high'', Str ''High likelihood of malicious intent. Avoid interaction.''),
             (''critical'', Str ''Confirmed threat. Do not interact under any circumstances.'')]
      in case js_index descriptions level of
           Inl e \<Rightarrow> Inl e
         | Inr v \<Rightarrow> Inr (js_or v (Str ''Risk assessment in progress.'')))"

section \<open>The page of SentinelApp\<close>

text \<open>
  \<open>SentinelApp\<close> finds its elements with \<open>querySelector\<close> and \<open>getElementById\<close>,
  which return \<open>null\<close> when the page has no such element: every element is optional.
  A table row holds what its template builds: the three cell texts and the class
  attribute of the badge, as the strings interpolated. The code hands them to
  \<open>innerHTML\<close>, so the browser parses markup and entities in them; the rows here are
  the text before that parsing, and likewise the items of the recommendation list.
  \<open>fill_width\<close> is the string last assigned to \<open>style.width\<close>.
\<close>

record button =
  btn_disabled :: bool
  btn_text :: string

record textarea =
  ta_value :: string
  ta_disabled :: bool

record badge_el =
  bd_className :: string
  bd_text :: string

record fill_el =
  fill_width :: string
  fill_data_risk :: "string option"

record evidence_row =
  row_source :: string
  row_badge_class :: string
  row_status :: string
  row_details :: string

record results_section =
  rs_badge :: "badge_el option"
  rs_summary :: "string option"
  rs_risk_value :: "string option"
  rs_risk_fill :: "fill_el option"
  rs_risk_description :: "string option"
  rs_tbody :: "evidence_row list option"
  rs_result_list :: "string list option"
  rs_display :: string
  rs_scrolled :: bool

record page =
  analyze_btn :: "button option"
  threat_input :: "textarea option"
  console_results :: "results_section option"

text \<open>What the program does to the world outside the page, in order.\<close>

datatype jsfile = File string

datatype body = JsonBody jsval | FormData "(string \<times> jsfile) list"

record request =
  req_url :: string
  req_method :: string
  req_headers :: "(string \<times> string) list"
  req_body :: body

text \<open>
  A \<open>fetch\<close> either rejects, or resolves to a response with its \<open>ok\<close> flag and a
  body; \<open>response.json()\<close> rejects with a SyntaxError on a body that is not JSON
  (\<open>None\<close>).
\<close>

record response =
  resp_ok :: bool
  resp_json :: "jsval option"

datatype fetch_result = Rejected thrown | Responded response

datatype event =
    Fetch request
  | Alert string
  | ConsoleError string thrown

definition attempt :: "thrown + 'a \<Rightarrow> ('a \<Rightarrow> thrown + 'b) \<Rightarrow> thrown + 'b" where
  "attempt m f = (case m of Inl e \<Rightarrow> Inl e | Inr x \<Rightarrow> f x)"

text \<open>
  Assigning to \<open>textContent\<close>: \<open>null\<close> and \<open>undefined\<close> give the empty text, any
  other value is converted with \<open>ToString\<close>.
\<close>

fun dom_text :: "jsval \<Rightarrow> thrown + string" where
  "dom_text Undefined = Inr []"
| "dom_text Null = Inr []"
| "dom_text v = js_to_string v"

text \<open>
  \<open>xs.map(f)\<close> with an \<open>f\<close> that may throw: the first exception ends the loop.
\<close>

fun map_try :: "('a \<Rightarrow> thrown + 'b) \<Rightarrow> 'a list \<Rightarrow> thrown + 'b list" where
  "map_try f [] = Inr []"
| "map_try f (x # xs) = attempt (f x) (\<lambda>y. attempt (map_try f xs) (\<lambda>ys. Inr (y # ys)))"

text \<open>
  \<open>v.map(f)\<close> on a value that passed a truthiness test: only an array has \<open>map\<close>
  (a parsed object with an own \<open>map\<close> member has nothing that can be called).
\<close>

fun js_map :: "(jsval \<Rightarrow> thrown + 'b) \<Rightarrow> jsval \<Rightarrow> thrown + 'b list" where
  "js_map f (Arr xs) = map_try f xs"
| "js_map f v = Inl TypeError"

subsection \<open>displayResults\<close>

text \<open>
  A step of \<open>displayResults\<close> changes the results section and may throw; what was
  changed before the exception stays changed.
\<close>

type_synonym step = "results_section \<Rightarrow> results_section \<times> thrown option"

definition and_then :: "step \<Rightarrow> step \<Rightarrow> step" where
  "and_then f g sec =
     (case f sec of
        (sec', None) \<Rightarrow> g sec'
      | (sec', Some e) \<Rightarrow> (sec', Some e))"

text \<open>
  An assignment \<open>target = expression\<close>: when the expression throws, nothing is stored.
\<close>

definition assign :: "thrown + 'a \<Rightarrow> ('a \<Rightarrow> results_section \<Rightarrow> results_section) \<Rightarrow> step" where
  "assign rhs store sec =
     (case rhs of
        Inl e \<Rightarrow> (sec, Some e)
      | Inr x \<Rightarrow> (store x sec, None))"

definition set_badge_class :: "string \<Rightarrow> results_section \<Rightarrow> results_section" where
  "set_badge_class c sec = sec\<lparr>rs_badge := map_option (\<lambda>b. b\<lparr>bd_className := c\<rparr>) (rs_badge sec)\<rparr>"

definition set_badge_text :: "string \<Rightarrow> results_section \<Rightarrow> results_section" where
  "set_badge_text t sec = sec\<lparr>rs_badge := map_option (\<lambda>b. b\<lparr>bd_text := t\<rparr>) (rs_badge sec)\<rparr>"

definition set_fill_width :: "string \<Rightarrow> results_section \<Rightarrow> results_section" where
  "set_fill_width w sec = sec\<lparr>rs_risk_fill := map_option (\<lambda>f. f\<lparr>fill_width := w\<rparr>) (rs_risk_fill sec)\<rparr>"

definition set_fill_data_risk :: "string \<Rightarrow> results_section \<Rightarrow> results_section" where
  "set_fill_data_risk a sec =
     sec\<lparr>rs_risk_fill := map_option (\<lambda>f. f\<lparr>fill_data_risk := Some a\<rparr>) (rs_risk_fill sec)\<rparr>"

definition update_badge :: "jsval \<Rightarrow> step" where
  "update_badge result sec =
     (if rs_badge sec = None then (sec, None)
      else and_then
             (assign (attempt (attempt (js_get result ''riskLevel'') js_to_string)
                        (\<lambda>lvl. Inr (''badge badge-'' @ lvl)))
                     set_badge_class)
             (assign (attempt (attempt (js_get result ''riskLevel'') SentinelApp_formatRiskLevel)
                        dom_text)
                     set_badge_text)
             sec)"

definition update_summary :: "jsval \<Rightarrow> step" where
  "update_summary result sec =
     (if rs_summary sec = None then (sec, None)
      else assign (attempt (js_get result ''summary'') dom_text)
                  (\<lambda>t sec. sec\<lparr>rs_summary := Some t\<rparr>) sec)"

definition update_risk_indicator :: "jsval \<Rightarrow> step" where
  "update_risk_indicator result sec =
     (if rs_risk_value sec = None \<or> rs_risk_fill sec = None \<or> rs_risk_description sec = None
      then (sec, None)
      else and_then
             (assign (attempt (attempt (js_get result ''riskLevel'') SentinelApp_formatRiskLevel)
                        dom_text)
                     (\<lambda>t sec. sec\<lparr>rs_risk_value := Some t\<rparr>))
          (and_then
             (assign (attempt (attempt (js_get result ''riskLevel'') SentinelApp_getRiskPercentage)
                        (\<lambda>pct. Inr (js_str pct @ ''%'')))
                     set_fill_width)
          (and_then
             (assign (attempt (js_get result ''riskLevel'') js_to_string)
                     set_fill_data_risk)
             (assign (attempt (attempt (js_get result ''riskLevel'') SentinelApp_getRiskDescription)
                        dom_text)
                     (\<lambda>t sec. sec\<lparr>rs_risk_description := Some t\<rparr>))))
             sec)"

definition SentinelApp_evidence_row :: "jsval \<Rightarrow> thrown + evidence_row" where
  "SentinelApp_evidence_row item =
     attempt (attempt (js_get item ''source'') js_to_string) (\<lambda>src.
     attempt (attempt (js_get item ''status'') SentinelApp_getStatusBadge) (\<lambda>badge.
     attempt (attempt (js_get item ''status'') SentinelApp_formatStatus) (\<lambda>status.
     attempt (attempt (js_get item ''details'') js_to_string) (\<lambda>details.
       Inr \<lparr>row_source = src,
            row_badge_class = ''badge badge-'' @ js_str badge,
            row_status = status,
            row_details = details\<rparr>))))"

definition update_evidence :: "jsval \<Rightarrow> step" where
  "update_evidence result sec =
     (if rs_tbody sec = None then (sec, None)
      else case js_get result ''evidence'' of
             Inl e \<Rightarrow> (sec, Some e)
           | Inr ev \<Rightarrow>
               if truthy ev
               then assign (js_map SentinelApp_evidence_row ev)
                           (\<lambda>rows sec. sec\<lparr>rs_tbody := Some rows\<rparr>) sec
               else (sec, None))"

definition update_recommendations :: "jsval \<Rightarrow> step" where
  "update_recommendations result sec =
     (if rs_result_list sec = None then (sec, None)
      else case js_get result ''recommendations'' of
             Inl e \<Rightarrow> (sec, Some e)
           | Inr recs \<Rightarrow>
               if truthy recs
               then assign (js_map js_to_string recs)
                           (\<lambda>items sec. sec\<lparr>rs_result_list := Some items\<rparr>) sec
               else (sec, None))"

definition show_section :: step where
  "show_section sec = (sec\<lparr>rs_display := ''block'', rs_scrolled := True\<rparr>, None)"

definition SentinelApp_displayResults :: "jsval \<Rightarrow> page \<Rightarrow> page \<times> thrown option" where
  "SentinelApp_displayResults result pg =
     (case console_results pg of
        None \<Rightarrow> (pg, None)
      | Some sec \<Rightarrow>
          (case and_then (update_badge result)
                 (and_then (update_summary result)
                 (and_then (update_risk_indicator result)
                 (and_then (update_evidence result)
                 (and_then (update_recommendations result)
                  show_section)))) sec of
             (sec', err) \<Rightarrow> (pg\<lparr>console_results := Some sec'\<rparr>, err)))"

subsection \<open>Requests\<close>

text \<open>
  \<open>String.prototype.trim\<close> removes white space and line terminators from both ends.
  Among the code units below 256 these are tab, line feed, vertical tab, form feed,
  carriage return, space and the no-break space.
\<close>

definition js_whitespace :: "char \<Rightarrow> bool" where
  "js_whitespace c = ((of_char c :: nat) \<in> set [9, 10, 11, 12, 13, 32, 160])"

definition trim :: "string \<Rightarrow> string" where
  "trim s = rev (dropWhile js_whitespace (rev (dropWhile js_whitespace s)))"

definition apiEndpoint :: string where
  "apiEndpoint = ''/api/analyze''"

definition SentinelApp_showError :: "string \<Rightarrow> event list" where
  "SentinelApp_showError message = [Alert message]"

definition SentinelApp_setLoadingState :: "bool \<Rightarrow> page \<Rightarrow> page" where
  "SentinelApp_setLoadingState isLoading pg =
     pg\<lparr>analyze_btn :=
          map_option (\<lambda>b. b\<lparr>btn_disabled := isLoading,
                               btn_text := (if isLoading then ''Analyzing...'' else ''Analyze'')\<rparr>)
            (analyze_btn pg),
        threat_input :=
          map_option (\<lambda>i. i\<lparr>ta_disabled := isLoading\<rparr>) (threat_input pg)\<rparr>"

text \<open>
  The body of a response that is not \<open>ok\<close> is parsed and its \<open>error\<close> member becomes
  the message of the exception.
\<close>

definition SentinelApp_read_response :: "string \<Rightarrow> fetch_result \<Rightarrow> thrown + jsval" where
  "SentinelApp_read_response fallback fr =
     (case fr of
        Rejected e \<Rightarrow> Inl e
      | Responded r \<Rightarrow>
          if \<not> resp_ok r
          then (case resp_json r of
                  None \<Rightarrow> Inl SyntaxError
                | Some err \<Rightarrow>
                    attempt (js_get err ''error'') (\<lambda>m.
                    attempt (js_to_string (js_or m (Str fallback))) (\<lambda>msg.
                      Inl (Error msg))))
          else (case resp_json r of
                  None \<Rightarrow> Inl SyntaxError
                | Some v \<Rightarrow> Inr v))"

definition SentinelApp_analyzeInput ::
  "(request \<Rightarrow> fetch_result) \<Rightarrow> string \<Rightarrow> event list \<times> (thrown + jsval)" where
  "SentinelApp_analyzeInput fetch inp =
     (let req = \<lparr>req_url = apiEndpoint,
                 req_method = ''POST'',
                 req_headers = [(''Content-Type'', ''application/json'')],
                 req_body = JsonBody (Obj [(''input'', Str inp)])\<rparr>
      in ([Fetch req], SentinelApp_read_response ''API request failed'' (fetch req)))"

definition SentinelApp_analyzeImage ::
  "(request \<Rightarrow> fetch_result) \<Rightarrow> jsfile \<Rightarrow> event list \<times> (thrown + jsval)" where
  "SentinelApp_analyzeImage fetch f =
     (let req = \<lparr>req_url = apiEndpoint @ ''/image'',
                 req_method = ''POST'',
                 req_headers = [],
                 req_body = FormData [(''image'', f)]\<rparr>
      in ([Fetch req], SentinelApp_read_response ''Image upload failed'' (fetch req)))"

text \<open>
  The \<open>try\<close>/\<open>catch\<close>/\<open>finally\<close> shared by both handlers: display the result of the
  request; on any exception, from the request or from the display, show the message and
  log the exception; in every case leave the loading state.
\<close>

definition SentinelApp_try_display ::
  "string \<Rightarrow> string \<Rightarrow> event list \<times> (thrown + jsval) \<Rightarrow> page \<Rightarrow> page \<times> event list" where
  "SentinelApp_try_display message label req pg =
     (case req of
        (evs, Inl e) \<Rightarrow>
          (SentinelApp_setLoadingState False pg,
           evs @ SentinelApp_showError message @ [ConsoleError label e])
      | (evs, Inr result) \<Rightarrow>
          (case SentinelApp_displayResults result pg of
             (pg', None) \<Rightarrow> (SentinelApp_setLoadingState False pg', evs)
           | (pg', Some e) \<Rightarrow>
               (SentinelApp_setLoadingState False pg',
                evs @ SentinelApp_showError message @ [ConsoleError label e])))"

text \<open>
  \<open>handleAnalyze\<close> reads \<open>input.value\<close> before its \<open>try\<close>: on a page without the
  \<open>threat-input\<close> element the handler itself throws.
\<close>

definition SentinelApp_handleAnalyze ::
  "(request \<Rightarrow> fetch_result) \<Rightarrow> page \<Rightarrow> thrown + page \<times> event list" where
  "SentinelApp_handleAnalyze fetch pg =
     (case threat_input pg of
        None \<Rightarrow> Inl TypeError
      | Some inp \<Rightarrow>
          (let v = trim (ta_value inp)
           in if v = []
              then Inr (pg, SentinelApp_showError ''Please enter a URL, message, or phone number'')
              else Inr (SentinelApp_try_display ''Analysis failed. Please try again.''
                          ''Analysis error:''
                          (SentinelApp_analyzeInput fetch v)
                          (SentinelApp_setLoadingState True pg))))"

text \<open>
  The \<open>onchange\<close> handler that \<open>handleImageUpload\<close> installs on its file input;
  \<open>None\<close> is a change event without a file.
\<close>

definition SentinelApp_handleImageUpload ::
  "(request \<Rightarrow> fetch_result) \<Rightarrow> jsfile option \<Rightarrow> page \<Rightarrow> page \<times> event list" where
  "SentinelApp_handleImageUpload fetch fopt pg =
     (case fopt of
        None \<Rightarrow> (pg, [])
      | Some f \<Rightarrow>
          SentinelApp_try_display ''Image analysis failed. Please try again.''
            ''Image analysis error:''
            (SentinelApp_analyzeImage fetch f)
            (SentinelApp_setLoadingState True pg))"

section \<open>AnalysisPage\<close>

text \<open>
  The component's four state variables; \<open>error\<close> is \<open>null\<close> or a message. A handler
  returns the state after all its updates, and what it did to the outside.
\<close>

record analysis_state =
  ap_input :: string
  ap_loading :: bool
  ap_result :: jsval
  ap_error :: "string option"

definition AnalysisPage_initial :: analysis_state where
  "AnalysisPage_initial = \<lparr>ap_input = [], ap_loading = False, ap_result = Null, ap_error = None\<rparr>"

definition AnalysisPage_handleAnalyze ::
  "(request \<Rightarrow> fetch_result) \<Rightarrow> analysis_state \<Rightarrow> analysis_state \<times> event list" where
  "AnalysisPage_handleAnalyze fetch st =
     (if trim (ap_input st) = []
      then (st\<lparr>ap_error := Some ''Please enter a URL, message, or phone number''\<rparr>, [])
      else
        (let st1 = st\<lparr>ap_loading := True, ap_error := None\<rparr>;
             req = \<lparr>req_url = ''http://localhost:5000/api/analyze'',
                    req_method = ''POST'',
                    req_headers = [(''Content-Type'', ''application/json'')],
                    req_body = JsonBody (Obj [(''input'', Str (trim (ap_input st)))])\<rparr>;
             outcome = (case fetch req of
                          Rejected e \<Rightarrow> Inl e
                        | Responded r \<Rightarrow>
                            if \<not> resp_ok r then Inl (Error ''Analysis failed'')
                            else (case resp_json r of
                                    None \<Rightarrow> Inl SyntaxError
                                  | Some data \<Rightarrow> Inr data))
         in case outcome of
              Inr data \<Rightarrow> (st1\<lparr>ap_result := data, ap_loading := False\<rparr>, [Fetch req])
            | Inl err \<Rightarrow>
                (st1\<lparr>ap_error := Some ''Analysis failed. Please try again.'', ap_loading := False\<rparr>,
                 [Fetch req, ConsoleError ''Analysis error:'' err])))"

definition AnalysisPage_handleImageUpload ::
  "(request \<Rightarrow> fetch_result) \<Rightarrow> jsfile option \<Rightarrow> analysis_state \<Rightarrow> analysis_state \<times> event list" where
  "AnalysisPage_handleImageUpload fetch fopt st =
     (case fopt of
        None \<Rightarrow> (st, [])
      | Some f \<Rightarrow>
        (let st1 = st\<lparr>ap_loading := True, ap_error := None\<rparr>;
             req = \<lparr>req_url = ''http://localhost:5000/api/analyze/image'',
                    req_method = ''POST'',
                    req_headers = [],
                    req_body = FormData [(''image'', f)]\<rparr>;
             outcome = (case fetch req of
                          Rejected e \<Rightarrow> Inl e
                        | Responded r \<Rightarrow>
                            if \<not> resp_ok r then Inl (Error ''Image analysis failed'')
                            else (case resp_json r of
                                    None \<Rightarrow> Inl SyntaxError
                                  | Some data \<Rightarrow> Inr data))
         in case outcome of
              Inr data \<Rightarrow> (st1\<lparr>ap_result := data, ap_loading := False\<rparr>, [Fetch req])
            | Inl err \<Rightarrow>
                (st1\<lparr>ap_error := Some ''Image analysis failed. Please try again.'',
                     ap_loading := False\<rparr>,
                 [Fetch req, ConsoleError ''Image analysis error:'' err])))"

subsection \<open>What the component returns\<close>

text \<open>
  The render function returns an element tree; the model keeps the part of it that
  depends on the state. A child \<open>{c && element}\<close> is the falsy \<open>c\<close> itself or the
  element. Children are the values handed to React, class names and style values are the
  strings the template literals build.
\<close>

datatype 'a slot = Falsy jsval | Shown 'a

record evidence_cells =
  cell_source :: jsval
  cell_badge_class :: string
  cell_status :: jsval
  cell_details :: jsval

record results_view =
  rv_badge_class :: string
  rv_badge_label :: jsval
  rv_summary :: jsval
  rv_risk_value :: jsval
  rv_fill_width :: string
  rv_data_risk :: jsval
  rv_description :: jsval
  rv_evidence :: "evidence_cells list slot"
  rv_recommendations :: "jsval list slot"

text \<open>
  Rendering returns the tree or throws. \<open>Unmodelled\<close> marks the one place where the
  outcome depends on converting a string to a number, which is not part of this model.
\<close>

datatype 'a rendering = Rendered 'a | Throws thrown | Unmodelled

definition AnalysisPage_alert :: "analysis_state \<Rightarrow> string option" where
  "AnalysisPage_alert st =
     (case ap_error st of
        None \<Rightarrow> None
      | Some m \<Rightarrow> if m = [] then None else Some m)"

definition AnalysisPage_evidence_cells :: "jsval \<Rightarrow> thrown + evidence_cells" where
  "AnalysisPage_evidence_cells item =
     attempt (js_get item ''source'') (\<lambda>src.
     attempt (js_get item ''status'') (\<lambda>status.
     attempt (js_get item ''details'') (\<lambda>details.
       Inr \<lparr>cell_source = src,
            cell_badge_class = ''badge badge-'' @ (if status = Str ''clean'' then ''low'' else ''medium''),
            cell_status = status,
            cell_details = details\<rparr>)))"

text \<open>
  \<open>v && v.length > 0 && (... v.map(f) ...)\<close>. A truthy value that is not an array has
  no \<open>map\<close>: once its \<open>length\<close> compares greater than zero the call throws.
\<close>

definition AnalysisPage_list_section ::
  "(jsval \<Rightarrow> thrown + 'a) \<Rightarrow> jsval \<Rightarrow> 'a list slot rendering" where
  "AnalysisPage_list_section f v =
     (if \<not> truthy v then Rendered (Falsy v)
      else case v of
             Arr xs \<Rightarrow>
               if xs = [] then Rendered (Falsy (Bool False))
               else (case map_try f xs of
                       Inl e \<Rightarrow> Throws e
                     | Inr ys \<Rightarrow> Rendered (Shown ys))
           | Str s \<Rightarrow> Throws TypeError
           | Obj kvs \<Rightarrow>
               (case obj_get kvs ''length'' of
                  Undefined \<Rightarrow> Rendered (Falsy (Bool False))
                | Null \<Rightarrow> Rendered (Falsy (Bool False))
                | Bool b \<Rightarrow> if b then Throws TypeError else Rendered (Falsy (Bool False))
                | Num n \<Rightarrow> if 0 < n then Throws TypeError else Rendered (Falsy (Bool False))
                | _ \<Rightarrow> Unmodelled)
           | Builtin n \<Rightarrow> Unmodelled
           | _ \<Rightarrow> Rendered (Falsy (Bool False)))"

definition AnalysisPage_results :: "jsval \<Rightarrow> results_view slot rendering" where
  "AnalysisPage_results result =
     (if \<not> truthy result then Rendered (Falsy result)
      else
        case attempt (js_get result ''riskLevel'') (\<lambda>lvl.
             attempt (AnalysisPage_getRiskBadgeClass lvl) (\<lambda>cls.
             attempt (AnalysisPage_formatRiskLevel lvl) (\<lambda>label.
             attempt (js_get result ''summary'') (\<lambda>summary.
             attempt (AnalysisPage_getRiskPercentage lvl) (\<lambda>pct.
             attempt (AnalysisPage_getRiskDescription lvl) (\<lambda>descr.
             attempt (js_get result ''evidence'') (\<lambda>ev.
             attempt (js_get result ''recommendations'') (\<lambda>recs.
               Inr (\<lparr>rv_badge_class = cls,
                     rv_badge_label = label,
                     rv_summary = summary,
                     rv_risk_value = label,
                     rv_fill_width = js_str pct @ ''%'',
                     rv_data_risk = lvl,
                     rv_description = descr,
                     rv_evidence = Falsy Undefined,
                     rv_recommendations = Falsy Undefined\<rparr>, ev, recs))))))))) of
          Inl e \<Rightarrow> Throws e
        | Inr (view, ev, recs) \<Rightarrow>
            (case AnalysisPage_list_section AnalysisPage_evidence_cells ev of
               Throws e \<Rightarrow> Throws e
             | Unmodelled \<Rightarrow> Unmodelled
             | Rendered rows \<Rightarrow>
                 (case AnalysisPage_list_section Inr recs of
                    Throws e \<Rightarrow> Throws e
                  | Unmodelled \<Rightarrow> Unmodelled
                  | Rendered items \<Rightarrow>
                      Rendered (Shown (view\<lparr>rv_evidence := rows, rv_recommendations := items\<rparr>)))))"

definition AnalysisPage_render :: "analysis_state \<Rightarrow> (string option \<times> results_view slot) rendering" where
  "AnalysisPage_render st =
     (case AnalysisPage_results (ap_result st) of
        Throws e \<Rightarrow> Throws e
      | Unmodelled \<Rightarrow> Unmodelled
      | Rendered r \<Rightarrow> Rendered (AnalysisPage_alert st, r))"

section \<open>EducationPage\<close>

text \<open>
  The question index is a JavaScript number: an integer, or \<open>NaN\<close> (\<open>None\<close>) once
  it has been through a remainder by zero. The model covers question lists that are
  arrays.
\<close>

record education_state =
  ed_questions :: "jsval list"
  ed_currentIndex :: "int option"
  ed_answer :: string
  ed_feedback :: jsval
  ed_loading :: bool

definition EducationPage_initial :: education_state where
  "EducationPage_initial =
     \<lparr>ed_questions = [], ed_currentIndex = Some 0, ed_answer = [], ed_feedback = Null,
      ed_loading = False\<rparr>"

text \<open>
  \<open>a % b\<close> on integers: \<open>NaN\<close> when \<open>b\<close> is zero, else the remainder of the
  truncating division, with the sign of \<open>a\<close>.
\<close>

definition js_rem :: "int \<Rightarrow> int \<Rightarrow> int option" where
  "js_rem a b = (if b = 0 then None else Some (sgn a * (\<bar>a\<bar> mod \<bar>b\<bar>)))"

definition EducationPage_handleNext :: "education_state \<Rightarrow> education_state" where
  "EducationPage_handleNext st =
     st\<lparr>ed_answer := [],
        ed_feedback := Null,
        ed_currentIndex :=
          (case ed_currentIndex st of
             None \<Rightarrow> None
           | Some prev \<Rightarrow> js_rem (prev + 1) (int (length (ed_questions st))))\<rparr>"

text \<open>\<open>questions[currentIndex]\<close>: \<open>undefined\<close> outside the array.\<close>

definition current_question :: "education_state \<Rightarrow> jsval" where
  "current_question st =
     (case ed_currentIndex st of
        None \<Rightarrow> Undefined
      | Some i \<Rightarrow>
          if 0 \<le> i \<and> i < int (length (ed_questions st)) then ed_questions st ! nat i
          else Undefined)"

text \<open>
  What the page shows: the loading notice while there is no question, else the current
  question, and the Next button once there is feedback.
\<close>

datatype education_view =
    LoadingQuestions
  | Question jsval bool

definition EducationPage_render :: "education_state \<Rightarrow> education_view" where
  "EducationPage_render st =
     (if length (ed_questions st) = 0 then LoadingQuestions
      else Question (current_question st) (truthy (ed_feedback st)))"

text \<open>A click on Next, which only exists where the view has the button.\<close>

definition click_next :: "education_state \<Rightarrow> education_state" where
  "click_next st =
     (case EducationPage_render st of
        Question q True \<Rightarrow> EducationPage_handleNext st
      | _ \<Rightarrow> st)"

section \<open>The verdict contract\<close>

text \<open>
  The risk levels in their order, and the strings that name them in the verdict JSON.
\<close>

datatype risk_level = Low | Medium | High | Critical

fun level_rank :: "risk_level \<Rightarrow> nat" where
  "level_rank Low = 0"
| "level_rank Medium = 1"
| "level_rank High = 2"
| "level_rank Critical = 3"

fun level_name :: "risk_level \<Rightarrow> string" where
  "level_name Low = ''low''"
| "level_name Medium = ''medium''"
| "level_name High = ''high''"
| "level_name Critical = ''critical''"

section \<open>Risk Aggregator\<close>

datatype status_tag = Clean | Suspicious | Malicious | Inconclusive

record evidence =
  ev_source :: string
  ev_score :: real
  ev_confidence :: real
  ev_weight :: real
  ev_detail :: string
  ev_status :: status_tag

record risk_verdict =
  vd_risk_level :: risk_level
  vd_confidence :: real
  vd_summary :: string
  vd_reasoning :: "string list"
  vd_evidence :: "evidence list"
  vd_recommendations :: "string list"
  vd_uncertainties :: "string list"

text \<open>
  What the design leaves to the implementer: the factor and the threshold of the
  disagreement penalty, and the wording of summaries, sentences and guidance.
\<close>

record aggregator_choices =
  penalty_factor :: real
  penalty_threshold :: real
  summary_of :: "risk_level \<Rightarrow> string"
  sentence_of :: "evidence \<Rightarrow> string"
  closing_sentence :: string
  guidance_of :: "risk_level \<Rightarrow> string list"

definition clamp100 :: "real \<Rightarrow> real" where
  "clamp100 x = max 0 (min 100 x)"

definition in_range :: "evidence \<Rightarrow> bool" where
  "in_range e =
     (0 \<le> ev_score e \<and> ev_score e \<le> 100 \<and> 0 \<le> ev_confidence e \<and> ev_confidence e \<le> 100)"

definition clamp_evidence :: "evidence \<Rightarrow> evidence" where
  "clamp_evidence e =
     e\<lparr>ev_score := clamp100 (ev_score e), ev_confidence := clamp100 (ev_confidence e)\<rparr>"

definition share :: "evidence \<Rightarrow> real" where
  "share e = ev_weight e * (ev_confidence e / 100)"

definition level_of_score :: "real \<Rightarrow> risk_level" where
  "level_of_score x =
     (if x < 30 then Low else if x < 60 then Medium else if x < 85 then High else Critical)"

definition mean :: "real list \<Rightarrow> real" where
  "mean xs = sum_list xs / real (length xs)"

definition std_dev :: "real list \<Rightarrow> real" where
  "std_dev xs = sqrt (mean (map (\<lambda>x. (x - mean xs)\<^sup>2) xs))"

definition no_signal_note :: string where
  "no_signal_note = ''No independent signal was available.''"

definition single_source_note :: string where
  "single_source_note = ''Fewer than two independent sources responded.''"

definition disagreement_note :: string where
  "disagreement_note = ''The sources disagree.''"

definition clamp_note :: string where
  "clamp_note = ''Out-of-range evidence values were clamped.''"

text \<open>
  Modelled from the spec: the verdict of step 1 of section 4.2, returned when there is no
  evidence; the Risk Aggregator's code is not among the sources.
\<close>

definition no_evidence_verdict :: "aggregator_choices \<Rightarrow> risk_verdict" where
  "no_evidence_verdict ch =
     \<lparr>vd_risk_level = Medium,
      vd_confidence = 0,
      vd_summary = summary_of ch Medium,
      vd_reasoning = [],
      vd_evidence = [],
      vd_recommendations = guidance_of ch Medium,
      vd_uncertainties = [no_signal_note]\<rparr>"

text \<open>
  Modelled from the spec: the Risk Aggregator of section 4.2, whose code is not among
  the sources. The steps are those of the algorithm given there, in its order.
\<close>

definition Aggregate :: "aggregator_choices \<Rightarrow> evidence list \<Rightarrow> risk_verdict" where
  "Aggregate ch evs =
     (if evs = [] then no_evidence_verdict ch
      else
        (let es = map clamp_evidence evs;
             total = sum_list (map share es)
         in if total = 0 then no_evidence_verdict ch
            else
              (let score = sum_list (map (\<lambda>e. ev_score e * share e) es) / total;
                   level = level_of_score score;
                   penalty = penalty_factor ch * std_dev (map ev_score es);
                   confidence =
                     clamp100 (sum_list (map (\<lambda>e. ev_confidence e * share e) es) / total - penalty);
                   ordered = sort_key (\<lambda>e. - (ev_weight e * ev_confidence e)) es;
                   conflict = (1 < card (set (map ev_status es)))
               in \<lparr>vd_risk_level = level,
                   vd_confidence = confidence,
                   vd_summary = summary_of ch level,
                   vd_reasoning =
                     map (sentence_of ch) ordered @ (if conflict then [closing_sentence ch] else []),
                   vd_evidence = es,
                   vd_recommendations = guidance_of ch level,
                   vd_uncertainties =
                     (if length es < 2 then [single_source_note] else [])
                     @ (if penalty_threshold ch < penalty then [disagreement_note] else [])
                     @ (if list_all in_range evs then [] else [clamp_note])\<rparr>)))"

section \<open>Conversation Store\<close>

text \<open>
  A session binds an identity to its last exchanges. Time is counted in seconds; a
  session idle for more than thirty minutes is expired.
\<close>

type_synonym exchange = "string \<times> (risk_verdict + string)"

record conversation_session =
  cs_identity :: string
  cs_history :: "exchange list"
  cs_last_activity :: nat
  cs_language :: string

type_synonym conversation_store = "string \<rightharpoonup> conversation_session"

definition history_bound :: nat where
  "history_bound = 5"

definition idle_limit :: nat where
  "idle_limit = 30 * 60"

definition expired :: "nat \<Rightarrow> conversation_session \<Rightarrow> bool" where
  "expired now s = (idle_limit < now - cs_last_activity s)"

text \<open>The newest \<open>n\<close> entries of a history, in their order.\<close>

definition newest :: "nat \<Rightarrow> 'a list \<Rightarrow> 'a list" where
  "newest n xs = drop (length xs - n) xs"

text \<open>
  Modelled from the spec: \<open>Get\<close> of the Conversation Store of section 4.3, whose code
  is not among the sources. An expired session is not found, though it is still stored.
\<close>

definition Get :: "nat \<Rightarrow> conversation_store \<Rightarrow> string \<Rightarrow> conversation_session option" where
  "Get now store identity =
     (case store identity of
        None \<Rightarrow> None
      | Some s \<Rightarrow> if expired now s then None else Some s)"

text \<open>
  Modelled from the spec: \<open>Upsert\<close> of the Conversation Store of section 4.3, whose
  code is not among the sources. It creates the session on first use, otherwise appends
  and keeps the newest five exchanges, and always refreshes the time of last activity.
  The language of a new session is the one detected for its first utterance.
\<close>

definition Upsert ::
  "(string \<Rightarrow> string) \<Rightarrow> nat \<Rightarrow> string \<Rightarrow> string \<Rightarrow> risk_verdict + string
     \<Rightarrow> conversation_store \<Rightarrow> conversation_store" where
  "Upsert detect now identity utterance reply store =
     (case store identity of
        None \<Rightarrow>
          store(identity \<mapsto>
            \<lparr>cs_identity = identity,
             cs_history = [(utterance, reply)],
             cs_last_activity = now,
             cs_language = detect utterance\<rparr>)
      | Some s \<Rightarrow>
          store(identity \<mapsto>
            s\<lparr>cs_history := newest history_bound (cs_history s @ [(utterance, reply)]),
              cs_last_activity := now\<rparr>))"

text \<open>
  Modelled from the spec: \<open>Cleanup\<close> of the Conversation Store of section 4.3, whose
  code is not among the sources. It removes every expired session.
\<close>

definition Cleanup :: "nat \<Rightarrow> conversation_store \<Rightarrow> conversation_store" where
  "Cleanup now store =
     (\<lambda>identity. case store identity of
                    None \<Rightarrow> None
                  | Some s \<Rightarrow> if expired now s then None else Some s)"

text \<open>A run of \<open>Upsert\<close> calls, each with its time, identity, utterance and reply.\<close>

type_synonym upsert_call = "nat \<times> string \<times> exchange"

fun run_upserts :: "(string \<Rightarrow> string) \<Rightarrow> upsert_call list \<Rightarrow> conversation_store \<Rightarrow> conversation_store" where
  "run_upserts detect [] store = store"
| "run_upserts detect ((now, identity, utterance, reply) # calls) store =
     run_upserts detect calls (Upsert detect now identity utterance reply store)"

definition history_of :: "conversation_store \<Rightarrow> string \<Rightarrow> exchange list" where
  "history_of store identity =
     (case store identity of
        None \<Rightarrow> []
      | Some s \<Rightarrow> cs_history s)"

definition exchanges_of :: "string \<Rightarrow> upsert_call list \<Rightarrow> exchange list" where
  "exchanges_of identity calls = map (\<lambda>c. snd (snd c)) (filter (\<lambda>c. fst (snd c) = identity) calls)"

section \<open>EducationPage: submitting, and runs of events\<close>

text \<open>
  \<open>handleSubmit\<close> does not look at \<open>response.ok\<close>: whatever body parses gives the
  feedback. The handler is taken as one step, from the click to the end of its
  \<open>finally\<close>.
\<close>

definition EducationPage_handleSubmit ::
  "(request \<Rightarrow> fetch_result) \<Rightarrow> education_state \<Rightarrow> education_state \<times> event list" where
  "EducationPage_handleSubmit fetch st =
     (if trim (ed_answer st) = [] then (st, [])
      else
        (let req = \<lparr>req_url = ''http://localhost:5000/api/education/answer'',
                    req_method = ''POST'',
                    req_headers = [(''Content-Type'', ''application/json'')],
                    req_body = JsonBody (Obj [(''question'', current_question st),
                                              (''answer'', Str (trim (ed_answer st)))])\<rparr>;
             outcome = (case fetch req of
                          Rejected e \<Rightarrow> Inl e
                        | Responded r \<Rightarrow>
                            (case resp_json r of
                               None \<Rightarrow> Inl SyntaxError
                             | Some data \<Rightarrow> js_get data ''feedback''))
         in case outcome of
              Inr fb \<Rightarrow> (st\<lparr>ed_feedback := fb, ed_loading := False\<rparr>, [Fetch req])
            | Inl err \<Rightarrow>
                (st\<lparr>ed_feedback := Str ''Failed to check answer. Please try again.'',
                    ed_loading := False\<rparr>,
                 [Fetch req, ConsoleError ''Failed to check answer:'' err])))"

text \<open>
  What can happen to the page: the question list arrives, the user types into the
  answer box, clicks Submit, clicks Next. A control that the current view does not offer,
  or offers disabled, does nothing.
\<close>

datatype education_event =
    QuestionsLoaded "jsval list"
  | AnswerChanged string
  | SubmitClicked
  | NextClicked

fun is_load :: "education_event \<Rightarrow> bool" where
  "is_load (QuestionsLoaded qs) = True"
| "is_load ev = False"

fun education_step ::
  "(request \<Rightarrow> fetch_result) \<Rightarrow> education_event \<Rightarrow> education_state \<Rightarrow> education_state" where
  "education_step fetch (QuestionsLoaded qs) st = st\<lparr>ed_questions := qs\<rparr>"
| "education_step fetch (AnswerChanged s) st =
     (if length (ed_questions st) = 0 \<or> ed_loading st \<or> ed_feedback st \<noteq> Null then st
      else st\<lparr>ed_answer := s\<rparr>)"
| "education_step fetch SubmitClicked st =
     (if length (ed_questions st) = 0 \<or> truthy (ed_feedback st) \<or> ed_loading st
         \<or> trim (ed_answer st) = []
      then st else fst (EducationPage_handleSubmit fetch st))"
| "education_step fetch NextClicked st = click_next st"

fun education_run ::
  "(request \<Rightarrow> fetch_result) \<Rightarrow> education_event list \<Rightarrow> education_state \<Rightarrow> education_state" where
  "education_run fetch [] st = st"
| "education_run fetch (ev # evs) st = education_run fetch evs (education_step fetch ev st)"

definition index_in_bounds :: "education_state \<Rightarrow> bool" where
  "index_in_bounds st =
     (case ed_currentIndex st of
        None \<Rightarrow> False
      | Some i \<Rightarrow> 0 \<le> i \<and> i < int (length (ed_questions st)))"

section \<open>Vocabulary of the properties\<close>

text \<open>A request-level failure: the request rejects, or its response is not \<open>ok\<close>.\<close>

definition request_failed :: "fetch_result \<Rightarrow> bool" where
  "request_failed fr = (case fr of Rejected e \<Rightarrow> True | Responded r \<Rightarrow> \<not> resp_ok r)"

text \<open>The messages a run of \<open>SentinelApp\<close> put before the user.\<close>

fun alerts :: "event list \<Rightarrow> string list" where
  "alerts [] = []"
| "alerts (Alert m # evs) = m # alerts evs"
| "alerts (e # evs) = alerts evs"

section \<open>Concrete inputs\<close>

text \<open>A page with every element \<open>SentinelApp\<close> looks for, before any analysis.\<close>

definition full_page :: page where
  "full_page =
     \<lparr>analyze_btn = Some \<lparr>btn_disabled = False, btn_text = ''Analyze''\<rparr>,
      threat_input = Some \<lparr>ta_value = [], ta_disabled = False\<rparr>,
      console_results =
        Some \<lparr>rs_badge = Some \<lparr>bd_className = ''badge'', bd_text = []\<rparr>,
              rs_summary = Some [],
              rs_risk_value = Some [],
              rs_risk_fill = Some \<lparr>fill_width = [], fill_data_risk = None\<rparr>,
              rs_risk_description = Some [],
              rs_tbody = Some [],
              rs_result_list = Some [],
              rs_display = ''none'',
              rs_scrolled = False\<rparr>\<rparr>"

text \<open>
  The response the README documents for \<open>POST /api/analyze/image\<close>, the endpoint both
  frontends call for an uploaded image.
\<close>

definition documented_response :: jsval where
  "documented_response =
     Obj [(''type'', Str ''image''),
          (''extracted_text'', Str ''Full text from image...''),
          (''risk_level'', Str ''high''),
          (''confidence'', Num 88),
          (''summary'', Str ''Phishing attempt detected''),
          (''reasoning'', Arr [Str ''Typosquatting domain'', Str ''Urgency tactics'']),
          (''recommendations'', Arr [Str ''Do not click links'', Str ''Report to authorities''])]"

text \<open>A result in the shape both frontends read, with two evidence items.\<close>

definition flagged_result :: jsval where
  "flagged_result =
     Obj [(''riskLevel'', Str ''high''),
          (''summary'', Str ''Phishing attempt detected''),
          (''evidence'',
             Arr [Obj [(''source'', Str ''URLhaus''), (''status'', Str ''malicious''),
                       (''details'', Str ''Listed as malware distribution'')],
                  Obj [(''source'', Str ''VirusTotal''), (''status'', Str ''suspicious''),
                       (''details'', Str ''2/70 engines flagged'')]]),
          (''recommendations'', Arr [Str ''Do not click links''])]"

text \<open>A backend that answers every request with status 500 and an internal detail.\<close>

definition refusing :: "request \<Rightarrow> fetch_result" where
  "refusing req =
     Responded \<lparr>resp_ok = False,
                resp_json = Some (Obj [(''error'', Str ''VirusTotal key vt-123 rejected'')])\<rparr>"

definition typed_state :: analysis_state where
  "typed_state = AnalysisPage_initial\<lparr>ap_input := '' https://example.com ''\<rparr>"

definition typed_page :: page where
  "typed_page =
     \<lparr>analyze_btn = Some \<lparr>btn_disabled = False, btn_text = ''Analyze''\<rparr>,
      threat_input = Some \<lparr>ta_value = '' https://example.com '', ta_disabled = False\<rparr>,
      console_results = None\<rparr>"

definition blank_state :: analysis_state where
  "blank_state = AnalysisPage_initial\<lparr>ap_input := [CHR '' '', CHR 0x09, CHR 0x0A, CHR 0xA0]\<rparr>"

definition blank_page :: page where
  "blank_page =
     \<lparr>analyze_btn = Some \<lparr>btn_disabled = False, btn_text = ''Analyze''\<rparr>,
      threat_input = Some \<lparr>ta_value = [CHR '' '', CHR 0x09, CHR 0x0A, CHR 0xA0], ta_disabled = False\<rparr>,
      console_results = None\<rparr>"

definition two_questions :: "jsval list" where
  "two_questions = [Str ''What is phishing?'', Str ''What is vishing?'']"

definition helpful :: "request \<Rightarrow> fetch_result" where
  "helpful req =
     Responded \<lparr>resp_ok = True, resp_json = Some (Obj [(''feedback'', Str ''Good.'')])\<rparr>"

definition numbered_call :: "nat \<Rightarrow> upsert_call" where
  "numbered_call n = (n, ''+1-800-123-4567'', (show_nat n, Inr ''reply''))"

section \<open>Vocabulary of the indicator bar\<close>

text \<open>
  A verdict that carries the given level under the key the frontends read, with any
  other members.
\<close>

definition verdict_with :: "risk_level \<Rightarrow> (string \<times> jsval) list \<Rightarrow> jsval" where
  "verdict_with l members = Obj ((''riskLevel'', Str (level_name l)) # members)"

fun nullish :: "jsval \<Rightarrow> bool" where
  "nullish Undefined = True"
| "nullish Null = True"
| "nullish v = False"

text \<open>A member that is left out, or an array whose elements all pass the test.\<close>

definition array_or_absent :: "(jsval \<Rightarrow> bool) \<Rightarrow> jsval \<Rightarrow> bool" where
  "array_or_absent ok v =
     (case v of
        Undefined \<Rightarrow> True
      | Arr xs \<Rightarrow> list_all ok xs
      | _ \<Rightarrow> False)"

text \<open>
  The width of the indicator bar on the page of \<open>SentinelApp\<close>: the string last
  assigned to \<open>style.width\<close> of the fill element, if the page has one.
\<close>

definition bar_width :: "page \<Rightarrow> string option" where
  "bar_width pg =
     (case console_results pg of
        None \<Rightarrow> None
      | Some sec \<Rightarrow> map_option fill_width (rs_risk_fill sec))"

text \<open>
  \<open>displayResults\<close> reaches the assignment to \<open>style.width\<close> when the page has the
  three elements its guard asks for and the summary before it converts to text.
\<close>

definition reaches_indicator :: "page \<Rightarrow> (string \<times> jsval) list \<Rightarrow> bool" where
  "reaches_indicator pg members =
     (case console_results pg of
        None \<Rightarrow> False
      | Some sec \<Rightarrow>
          rs_risk_value sec \<noteq> None \<and> rs_risk_fill sec \<noteq> None \<and> rs_risk_description sec \<noteq> None
          \<and> stringifiable (obj_get members ''summary''))"

text \<open>
  \<open>AnalysisPage\<close> returns its tree when the evidence is an array of items that are
  not \<open>null\<close>, and the recommendations are an array, or either is left out.
\<close>

definition lists_in_shape :: "(string \<times> jsval) list \<Rightarrow> bool" where
  "lists_in_shape members =
     (array_or_absent (\<lambda>item. \<not> nullish item) (obj_get members ''evidence'')
      \<and> array_or_absent (\<lambda>rec. True) (obj_get members ''recommendations''))"

text \<open>A step that leaves the three elements of the risk indicator as they are.\<close>

definition keeps_indicator :: "step \<Rightarrow> bool" where
  "keeps_indicator f =
     (\<forall>sec. rs_risk_value (fst (f sec)) = rs_risk_value sec
          \<and> rs_risk_fill (fst (f sec)) = rs_risk_fill sec
          \<and> rs_risk_description (fst (f sec)) = rs_risk_description sec)"

definition plain_members :: "(string \<times> jsval) list" where
  "plain_members =
     [(''summary'', Str ''Phishing attempt detected''),
      (''evidence'',
         Arr [Obj [(''source'', Str ''VirusTotal''), (''status'', Str ''suspicious''),
                   (''details'', Str ''2/70 engines flagged'')]]),
      (''recommendations'', Arr [Str ''Do not click links''])]"

section \<open>Properties of the risk-level tables\<close>

lemma js_index_Str [simp]: "js_index props (Str s) = Inr (obj_get props s)"
  by (simp add: js_index_def js_to_string_def)

lemma same_formatRiskLevel: "AnalysisPage_formatRiskLevel = SentinelApp_formatRiskLevel"
  by (rule ext) (simp add: AnalysisPage_formatRiskLevel_def SentinelApp_formatRiskLevel_def)

lemma same_getRiskPercentage: "AnalysisPage_getRiskPercentage = SentinelApp_getRiskPercentage"
  by (rule ext) (simp add: AnalysisPage_getRiskPercentage_def SentinelApp_getRiskPercentage_def)

lemma same_getRiskDescription: "AnalysisPage_getRiskDescription = SentinelApp_getRiskDescription"
  by (rule ext) (simp add: AnalysisPage_getRiskDescription_def SentinelApp_getRiskDescription_def)

lemma SentinelApp_labels:
  "SentinelApp_formatRiskLevel (Str ''low'') = Inr (Str ''Low Risk'')"
  "SentinelApp_formatRiskLevel (Str ''medium'') = Inr (Str ''Medium Risk'')"
  "SentinelApp_formatRiskLevel (Str ''high'') = Inr (Str ''High Risk'')"
  "SentinelApp_formatRiskLevel (Str ''critical'') = Inr (Str ''Critical Risk'')"
  by (simp_all add: SentinelApp_formatRiskLevel_def obj_get_def js_or_def)

lemma SentinelApp_percentages:
  "SentinelApp_getRiskPercentage (Str ''low'') = Inr (Num 25)"
  "SentinelApp_getRiskPercentage (Str ''medium'') = Inr (Num 60)"
  "SentinelApp_getRiskPercentage (Str ''high'') = Inr (Num 85)"
  "SentinelApp_getRiskPercentage (Str ''critical'') = Inr (Num 100)"
  by (simp_all add: SentinelApp_getRiskPercentage_def obj_get_def js_or_def)

text \<open>
  C2: each of the four risk levels goes through a fixed table to a display label and to
  an indicator percentage, in both frontends: \<open>formatRiskLevel\<close> gives Low Risk, Medium
  Risk, High Risk, Critical Risk and \<open>getRiskPercentage\<close> gives 25, 60, 85, 100. The
  level is the only argument of either function.
\<close>

theorem risk_tables_fixed:
  "SentinelApp_formatRiskLevel (Str ''low'') = Inr (Str ''Low Risk'') \<and>
   SentinelApp_formatRiskLevel (Str ''medium'') = Inr (Str ''Medium Risk'') \<and>
   SentinelApp_formatRiskLevel (Str ''high'') = Inr (Str ''High Risk'') \<and>
   SentinelApp_formatRiskLevel (Str ''critical'') = Inr (Str ''Critical Risk'') \<and>
   SentinelApp_getRiskPercentage (Str ''low'') = Inr (Num 25) \<and>
   SentinelApp_getRiskPercentage (Str ''medium'') = Inr (Num 60) \<and>
   SentinelApp_getRiskPercentage (Str ''high'') = Inr (Num 85) \<and>
   SentinelApp_getRiskPercentage (Str ''critical'') = Inr (Num 100) \<and>
   AnalysisPage_formatRiskLevel (Str ''low'') = Inr (Str ''Low Risk'') \<and>
   AnalysisPage_formatRiskLevel (Str ''medium'') = Inr (Str ''Medium Risk'') \<and>
   AnalysisPage_formatRiskLevel (Str ''high'') = Inr (Str ''High Risk'') \<and>
   AnalysisPage_formatRiskLevel (Str ''critical'') = Inr (Str ''Critical Risk'') \<and>
   AnalysisPage_getRiskPercentage (Str ''low'') = Inr (Num 25) \<and>
   AnalysisPage_getRiskPercentage (Str ''medium'') = Inr (Num 60) \<and>
   AnalysisPage_getRiskPercentage (Str ''high'') = Inr (Num 85) \<and>
   AnalysisPage_getRiskPercentage (Str ''critical'') = Inr (Num 100)"
  by (simp only: same_formatRiskLevel same_getRiskPercentage SentinelApp_labels
        SentinelApp_percentages simp_thms)

text \<open>
  Outside the four levels the helpers fall back as long as the string is not the name of
  a member of \<open>Object.prototype\<close>, and on a string they never throw.
\<close>

lemma fallback_outside_prototype:
  assumes "s \<notin> set [''low'', ''medium'', ''high'', ''critical'']"
    and "s \<notin> set object_prototype_names"
  shows "SentinelApp_formatRiskLevel (Str s) = Inr (Str s)"
    and "SentinelApp_getRiskPercentage (Str s) = Inr (Num 50)"
    and "SentinelApp_getRiskDescription (Str s) = Inr (Str ''Risk assessment in progress.'')"
  using assms
  by (auto simp add: SentinelApp_formatRiskLevel_def SentinelApp_getRiskPercentage_def
        SentinelApp_getRiskDescription_def obj_get_def js_or_def)

lemma helpers_total_on_strings:
  "\<exists>v. SentinelApp_formatRiskLevel (Str s) = Inr v"
  "\<exists>v. SentinelApp_getRiskPercentage (Str s) = Inr v"
  "\<exists>v. SentinelApp_getRiskDescription (Str s) = Inr v"
  by (simp_all add: SentinelApp_formatRiskLevel_def SentinelApp_getRiskPercentage_def
        SentinelApp_getRiskDescription_def)

text \<open>
  C9: the helpers are to return the input unchanged, 50 and the text Risk assessment in
  progress. for every string outside the four levels. On the string \<open>constructor\<close>,
  which is outside the four levels, the table lookup finds the member inherited from
  \<open>Object.prototype\<close>, which is truthy, and all three helpers return that function in
  both frontends.
\<close>

theorem inherited_name_defeats_fallback:
  "SentinelApp_formatRiskLevel (Str ''constructor'') = Inr (Builtin ''constructor'') \<and>
   SentinelApp_getRiskPercentage (Str ''constructor'') = Inr (Builtin ''constructor'') \<and>
   SentinelApp_getRiskDescription (Str ''constructor'') = Inr (Builtin ''constructor'') \<and>
   AnalysisPage_formatRiskLevel (Str ''constructor'') = Inr (Builtin ''constructor'') \<and>
   AnalysisPage_getRiskPercentage (Str ''constructor'') = Inr (Builtin ''constructor'') \<and>
   AnalysisPage_getRiskDescription (Str ''constructor'') = Inr (Builtin ''constructor'')"
  by (simp add: same_formatRiskLevel same_getRiskPercentage same_getRiskDescription
        SentinelApp_formatRiskLevel_def SentinelApp_getRiskPercentage_def
        SentinelApp_getRiskDescription_def obj_get_def js_or_def object_prototype_names_def)

section \<open>Properties of the rendering\<close>

text \<open>
  C1: the presentation code is to read the risk level of a verdict under the key
  \<open>risk_level\<close>. On the response the README documents, which carries
  \<open>risk_level = high\<close>, both frontends read \<open>riskLevel\<close>, find \<open>undefined\<close>, and
  render the fallbacks: the class \<open>badge badge-undefined\<close>, no label, a bar of 50% and
  the text Risk assessment in progress.
\<close>

theorem documented_response_level_unread:
  "AnalysisPage_results documented_response =
     Rendered (Shown
       \<lparr>rv_badge_class = ''badge badge-undefined'',
        rv_badge_label = Undefined,
        rv_summary = Str ''Phishing attempt detected'',
        rv_risk_value = Undefined,
        rv_fill_width = ''50%'',
        rv_data_risk = Undefined,
        rv_description = Str ''Risk assessment in progress.'',
        rv_evidence = Falsy Undefined,
        rv_recommendations = Shown [Str ''Do not click links'', Str ''Report to authorities'']\<rparr>) \<and>
   SentinelApp_displayResults documented_response full_page =
     (full_page\<lparr>console_results :=
        Some \<lparr>rs_badge = Some \<lparr>bd_className = ''badge badge-undefined'', bd_text = []\<rparr>,
              rs_summary = Some ''Phishing attempt detected'',
              rs_risk_value = Some [],
              rs_risk_fill = Some \<lparr>fill_width = ''50%'', fill_data_risk = Some ''undefined''\<rparr>,
              rs_risk_description = Some ''Risk assessment in progress.'',
              rs_tbody = Some [],
              rs_result_list = Some [''Do not click links'', ''Report to authorities''],
              rs_display = ''block'',
              rs_scrolled = True\<rparr>\<rparr>, None)"
  by code_simp

text \<open>
  C3: the two frontends are to choose the same badge label, percentage, description and
  evidence badge class for every result. On a result with a malicious and a suspicious
  evidence item they agree on the label, the bar and the description, and on the badge
  of the suspicious item; for the malicious item \<open>SentinelApp\<close> chooses
  \<open>badge badge-high\<close> and \<open>AnalysisPage\<close> chooses \<open>badge badge-medium\<close>.
\<close>

theorem malicious_badge_differs:
  "AnalysisPage_results flagged_result =
     Rendered (Shown
       \<lparr>rv_badge_class = ''badge badge-high'',
        rv_badge_label = Str ''High Risk'',
        rv_summary = Str ''Phishing attempt detected'',
        rv_risk_value = Str ''High Risk'',
        rv_fill_width = ''85%'',
        rv_data_risk = Str ''high'',
        rv_description = Str ''High likelihood of malicious intent. Avoid interaction.'',
        rv_evidence =
          Shown [\<lparr>cell_source = Str ''URLhaus'',
                  cell_badge_class = ''badge badge-medium'',
                  cell_status = Str ''malicious'',
                  cell_details = Str ''Listed as malware distribution''\<rparr>,
                 \<lparr>cell_source = Str ''VirusTotal'',
                  cell_badge_class = ''badge badge-medium'',
                  cell_status = Str ''suspicious'',
                  cell_details = Str ''2/70 engines flagged''\<rparr>],
        rv_recommendations = Shown [Str ''Do not click links'']\<rparr>) \<and>
   SentinelApp_displayResults flagged_result full_page =
     (full_page\<lparr>console_results :=
        Some \<lparr>rs_badge = Some \<lparr>bd_className = ''badge badge-high'', bd_text = ''High Risk''\<rparr>,
              rs_summary = Some ''Phishing attempt detected'',
              rs_risk_value = Some ''High Risk'',
              rs_risk_fill = Some \<lparr>fill_width = ''85%'', fill_data_risk = Some ''high''\<rparr>,
              rs_risk_description =
                Some ''High likelihood of malicious intent. Avoid interaction.'',
              rs_tbody =
                Some [\<lparr>row_source = ''URLhaus'',
                       row_badge_class = ''badge badge-high'',
                       row_status = ''Malicious'',
                       row_details = ''Listed as malware distribution''\<rparr>,
                      \<lparr>row_source = ''VirusTotal'',
                       row_badge_class = ''badge badge-medium'',
                       row_status = ''Suspicious'',
                       row_details = ''2/70 engines flagged''\<rparr>],
              rs_result_list = Some [''Do not click links''],
              rs_display = ''block'',
              rs_scrolled = True\<rparr>\<rparr>, None)"
  by code_simp

section \<open>Properties of the request handlers\<close>

lemma all_whitespace_trim:
  assumes "list_all js_whitespace s"
  shows "trim s = []"
proof -
  have dropped: "dropWhile js_whitespace s = []"
    using assms by (simp add: list_all_iff)
  show ?thesis
    unfolding trim_def dropped by simp
qed

text \<open>
  C8: on an input that is empty or all white space, \<open>handleAnalyze\<close> makes no request
  and changes nothing but the message shown: \<open>AnalysisPage\<close> only sets its error to
  Please enter a URL, message, or phone number, and \<open>SentinelApp\<close> only raises an alert
  with that text.
\<close>

theorem blank_input_no_request:
  "(list_all js_whitespace (ap_input st) \<longrightarrow>
      AnalysisPage_handleAnalyze fetch st =
        (st\<lparr>ap_error := Some ''Please enter a URL, message, or phone number''\<rparr>, [])) \<and>
   (threat_input pg = Some inp \<and> list_all js_whitespace (ta_value inp) \<longrightarrow>
      SentinelApp_handleAnalyze fetch pg =
        Inr (pg, [Alert ''Please enter a URL, message, or phone number'']))"
  by (simp add: AnalysisPage_handleAnalyze_def SentinelApp_handleAnalyze_def
        SentinelApp_showError_def all_whitespace_trim)

theorem blank_input_no_request_witness:
  "AnalysisPage_handleAnalyze helpful blank_state =
     (blank_state\<lparr>ap_error := Some ''Please enter a URL, message, or phone number''\<rparr>, []) \<and>
   SentinelApp_handleAnalyze helpful blank_page =
     Inr (blank_page, [Alert ''Please enter a URL, message, or phone number''])"
proof -
  have blank: "list_all js_whitespace [CHR '' '', CHR 0x09, CHR 0x0A, CHR 0xA0]"
    by (simp add: js_whitespace_def)
  have st: "list_all js_whitespace (ap_input blank_state)"
    using blank by (simp add: blank_state_def)
  have pg: "threat_input blank_page =
              Some \<lparr>ta_value = [CHR '' '', CHR 0x09, CHR 0x0A, CHR 0xA0], ta_disabled = False\<rparr> \<and>
            list_all js_whitespace
              (ta_value \<lparr>ta_value = [CHR '' '', CHR 0x09, CHR 0x0A, CHR 0xA0], ta_disabled = False\<rparr>)"
    using blank by (simp add: blank_page_def)
  show ?thesis
    using blank_input_no_request [of blank_state helpful blank_page
        "\<lparr>ta_value = [CHR '' '', CHR 0x09, CHR 0x0A, CHR 0xA0], ta_disabled = False\<rparr>"] st pg
    by blast
qed

lemma alerts_append: "alerts (xs @ ys) = alerts xs @ alerts ys"
  by (induction xs rule: alerts.induct) simp_all

lemma read_response_failed:
  "request_failed fr \<Longrightarrow> \<exists>e. SentinelApp_read_response fallback fr = Inl e"
  by (auto simp add: request_failed_def SentinelApp_read_response_def attempt_def
        split: fetch_result.splits option.splits sum.splits)

lemma try_display_failed:
  "console_results (fst (SentinelApp_try_display message label (evs, Inl e) pg)) = console_results pg"
  "alerts (snd (SentinelApp_try_display message label (evs, Inl e) pg)) = alerts evs @ [message]"
  by (simp_all add: SentinelApp_try_display_def SentinelApp_setLoadingState_def
        SentinelApp_showError_def alerts_append)

lemma AnalysisPage_handleAnalyze_failed:
  assumes "request_failed (fetch \<lparr>req_url = ''http://localhost:5000/api/analyze'',
                    req_method = ''POST'',
                    req_headers = [(''Content-Type'', ''application/json'')],
                    req_body = JsonBody (Obj [(''input'', Str (trim (ap_input st)))])\<rparr>)"
    and "trim (ap_input st) \<noteq> []"
  shows "AnalysisPage_alert (fst (AnalysisPage_handleAnalyze fetch st)) =
           Some ''Analysis failed. Please try again.''"
    and "ap_result (fst (AnalysisPage_handleAnalyze fetch st)) = ap_result st"
  using assms
  by (auto simp add: AnalysisPage_handleAnalyze_def AnalysisPage_alert_def request_failed_def Let_def
        split: fetch_result.splits option.splits)

lemma AnalysisPage_handleImageUpload_failed:
  assumes "request_failed (fetch \<lparr>req_url = ''http://localhost:5000/api/analyze/image'',
                    req_method = ''POST'',
                    req_headers = [],
                    req_body = FormData [(''image'', f)]\<rparr>)"
  shows "AnalysisPage_alert (fst (AnalysisPage_handleImageUpload fetch (Some f) st)) =
           Some ''Image analysis failed. Please try again.''"
    and "ap_result (fst (AnalysisPage_handleImageUpload fetch (Some f) st)) = ap_result st"
  using assms
  by (auto simp add: AnalysisPage_handleImageUpload_def AnalysisPage_alert_def request_failed_def Let_def
        split: fetch_result.splits option.splits)

lemma SentinelApp_handleAnalyze_failed:
  assumes "\<forall>req. request_failed (fetch req)"
    and "threat_input pg = Some inp" and "trim (ta_value inp) \<noteq> []"
  shows "\<exists>pg' evs. SentinelApp_handleAnalyze fetch pg = Inr (pg', evs) \<and>
           alerts evs = [''Analysis failed. Please try again.''] \<and>
           console_results pg' = console_results pg"
proof -
  let ?req = "SentinelApp_analyzeInput fetch (trim (ta_value inp))"
  obtain e where e: "snd ?req = Inl e"
    using read_response_failed assms(1)
    by (metis SentinelApp_analyzeInput_def snd_conv)
  have evs: "alerts (fst ?req) = []"
    by (simp add: SentinelApp_analyzeInput_def Let_def)
  have req: "?req = (fst ?req, Inl e)"
    using e by (metis prod.collapse)
  let ?out = "SentinelApp_try_display ''Analysis failed. Please try again.'' ''Analysis error:''
                (fst ?req, Inl e) (SentinelApp_setLoadingState True pg)"
  have "SentinelApp_handleAnalyze fetch pg =
          Inr (SentinelApp_try_display ''Analysis failed. Please try again.'' ''Analysis error:''
                ?req (SentinelApp_setLoadingState True pg))"
    using assms(2,3) by (simp add: SentinelApp_handleAnalyze_def Let_def)
  then have "SentinelApp_handleAnalyze fetch pg = Inr ?out"
    using req by simp
  moreover have "alerts (snd ?out) = [''Analysis failed. Please try again.'']"
    using evs by (simp add: try_display_failed)
  moreover have "console_results (fst ?out) = console_results pg"
    by (simp add: try_display_failed SentinelApp_setLoadingState_def)
  ultimately show ?thesis
    by (metis prod.collapse)
qed

lemma SentinelApp_handleImageUpload_failed:
  assumes "\<forall>req. request_failed (fetch req)"
  shows "alerts (snd (SentinelApp_handleImageUpload fetch (Some f) pg)) =
           [''Image analysis failed. Please try again.'']"
    and "console_results (fst (SentinelApp_handleImageUpload fetch (Some f) pg)) = console_results pg"
proof -
  let ?req = "SentinelApp_analyzeImage fetch f"
  obtain e where e: "snd ?req = Inl e"
    using read_response_failed assms(1)
    by (metis SentinelApp_analyzeImage_def snd_conv)
  have evs: "alerts (fst ?req) = []"
    by (simp add: SentinelApp_analyzeImage_def Let_def)
  have req: "?req = (fst ?req, Inl e)"
    using e by (metis prod.collapse)
  show "alerts (snd (SentinelApp_handleImageUpload fetch (Some f) pg)) =
           [''Image analysis failed. Please try again.'']"
    unfolding SentinelApp_handleImageUpload_def option.case
    by (subst req) (simp add: try_display_failed evs)
  show "console_results (fst (SentinelApp_handleImageUpload fetch (Some f) pg)) = console_results pg"
    unfolding SentinelApp_handleImageUpload_def option.case
    by (subst req) (simp add: try_display_failed SentinelApp_setLoadingState_def)
qed

text \<open>
  C4: when every request fails (it rejects, or the response is not \<open>ok\<close>), the message
  put before the user is the fixed text Analysis failed. Please try again. after
  \<open>handleAnalyze\<close> and Image analysis failed. Please try again. after an image upload,
  in both frontends, whatever the failure carried; the displayed result is left as it
  was. The exception and the server's error text go to the console only.
\<close>

theorem request_failure_message_generic:
  assumes "\<forall>req. request_failed (fetch req)"
  shows "(trim (ap_input st) \<noteq> [] \<longrightarrow>
            AnalysisPage_alert (fst (AnalysisPage_handleAnalyze fetch st)) =
              Some ''Analysis failed. Please try again.'' \<and>
            ap_result (fst (AnalysisPage_handleAnalyze fetch st)) = ap_result st) \<and>
         AnalysisPage_alert (fst (AnalysisPage_handleImageUpload fetch (Some f) st)) =
              Some ''Image analysis failed. Please try again.'' \<and>
         ap_result (fst (AnalysisPage_handleImageUpload fetch (Some f) st)) = ap_result st \<and>
         (threat_input pg = Some inp \<and> trim (ta_value inp) \<noteq> [] \<longrightarrow>
            (\<exists>pg' evs. SentinelApp_handleAnalyze fetch pg = Inr (pg', evs) \<and>
               alerts evs = [''Analysis failed. Please try again.''] \<and>
               console_results pg' = console_results pg)) \<and>
         alerts (snd (SentinelApp_handleImageUpload fetch (Some f) pg)) =
           [''Image analysis failed. Please try again.''] \<and>
         console_results (fst (SentinelApp_handleImageUpload fetch (Some f) pg)) = console_results pg"
  using assms AnalysisPage_handleAnalyze_failed [of fetch st]
    AnalysisPage_handleImageUpload_failed [of fetch f st]
    SentinelApp_handleAnalyze_failed [of fetch pg inp]
    SentinelApp_handleImageUpload_failed [of fetch f pg]
  by blast

lemma trim_example: "trim '' https://example.com '' = ''https://example.com''"
  by (simp add: trim_def js_whitespace_def)

theorem request_failure_message_generic_witness:
  "AnalysisPage_alert (fst (AnalysisPage_handleAnalyze refusing typed_state)) =
     Some ''Analysis failed. Please try again.'' \<and>
   AnalysisPage_alert (fst (AnalysisPage_handleImageUpload refusing (Some (File ''shot.png'')) typed_state)) =
     Some ''Image analysis failed. Please try again.'' \<and>
   SentinelApp_handleAnalyze refusing typed_page =
     Inr (typed_page,
          [Fetch \<lparr>req_url = ''/api/analyze'', req_method = ''POST'',
                  req_headers = [(''Content-Type'', ''application/json'')],
                  req_body = JsonBody (Obj [(''input'', Str ''https://example.com'')])\<rparr>,
           Alert ''Analysis failed. Please try again.'',
           ConsoleError ''Analysis error:'' (Error ''VirusTotal key vt-123 rejected'')]) \<and>
   alerts (snd (SentinelApp_handleImageUpload refusing (Some (File ''shot.png'')) typed_page)) =
     [''Image analysis failed. Please try again.'']"
proof -
  have fails: "\<forall>req. request_failed (refusing req)"
    by (simp add: request_failed_def refusing_def)
  have typed: "trim (ap_input typed_state) \<noteq> []"
    by (simp add: typed_state_def trim_example)
  have run: "SentinelApp_handleAnalyze refusing typed_page =
     Inr (typed_page,
          [Fetch \<lparr>req_url = ''/api/analyze'', req_method = ''POST'',
                  req_headers = [(''Content-Type'', ''application/json'')],
                  req_body = JsonBody (Obj [(''input'', Str ''https://example.com'')])\<rparr>,
           Alert ''Analysis failed. Please try again.'',
           ConsoleError ''Analysis error:'' (Error ''VirusTotal key vt-123 rejected'')])"
    by (simp add: SentinelApp_handleAnalyze_def typed_page_def trim_example
          SentinelApp_try_display_def SentinelApp_analyzeInput_def SentinelApp_read_response_def
          refusing_def attempt_def obj_get_def js_or_def js_to_string_def apiEndpoint_def
          SentinelApp_setLoadingState_def SentinelApp_showError_def)
  show ?thesis
    using request_failure_message_generic [OF fails, of typed_state "File ''shot.png''" typed_page
        "\<lparr>ta_value = '' https://example.com '', ta_disabled = False\<rparr>"] typed run
    by simp
qed

section \<open>Properties of the Risk Aggregator\<close>

text \<open>
  C6: on an empty evidence list \<open>Aggregate\<close> returns risk level medium, confidence 0
  and exactly one uncertainty note, the one saying that no independent signal was
  available; the level is not low.
\<close>

theorem aggregate_empty:
  "vd_risk_level (Aggregate ch []) = Medium \<and>
   vd_confidence (Aggregate ch []) = 0 \<and>
   vd_uncertainties (Aggregate ch []) = [no_signal_note] \<and>
   length (vd_uncertainties (Aggregate ch [])) = 1 \<and>
   vd_risk_level (Aggregate ch []) \<noteq> Low"
  by (simp add: Aggregate_def no_evidence_verdict_def)

section \<open>Properties of the Conversation Store\<close>

lemma newest_rev: "newest n xs = rev (take n (rev xs))"
  by (simp add: newest_def take_rev)

lemma newest_append: "newest n (newest n xs @ ys) = newest n (xs @ ys)"
  by (simp add: newest_rev min_def)

lemma length_newest: "length (newest n xs) \<le> n"
  by (simp add: newest_def)

lemma newest_short: "length xs \<le> n \<Longrightarrow> newest n xs = xs"
  by (simp add: newest_def)

lemma history_of_Upsert:
  "history_of (Upsert detect now i u r store) k =
     (if k = i then newest history_bound (history_of store k @ [(u, r)]) else history_of store k)"
  by (auto simp add: Upsert_def history_of_def newest_def history_bound_def split: option.splits)

lemma run_upserts_history:
  "length (history_of store k) \<le> history_bound \<Longrightarrow>
   history_of (run_upserts detect calls store) k =
     newest history_bound (history_of store k @ exchanges_of k calls)"
proof (induction calls arbitrary: store)
  case Nil
  then show ?case by (simp add: exchanges_of_def newest_short)
next
  case (Cons c calls)
  obtain now i u r where c: "c = (now, i, u, r)" by (cases c) auto
  have len: "length (history_of (Upsert detect now i u r store) k) \<le> history_bound"
    using Cons.prems by (simp add: history_of_Upsert length_newest)
  show ?case
  proof (cases "k = i")
    case True
    have "history_of (run_upserts detect (c # calls) store) k =
          newest history_bound
            (newest history_bound (history_of store k @ [(u, r)]) @ exchanges_of k calls)"
      using Cons.IH [OF len] c True by (simp add: history_of_Upsert)
    also have "\<dots> = newest history_bound ((history_of store k @ [(u, r)]) @ exchanges_of k calls)"
      by (rule newest_append)
    finally show ?thesis using c True by (simp add: exchanges_of_def)
  next
    case False
    then show ?thesis using Cons.IH [OF len] c by (simp add: history_of_Upsert exchanges_of_def)
  qed
qed

lemma Cleanup_history_bounded:
  "length (history_of store k) \<le> history_bound \<Longrightarrow>
   length (history_of (Cleanup now store) k) \<le> history_bound"
  by (simp add: Cleanup_def history_of_def split: option.splits)

text \<open>
  C7: after any sequence of \<open>Upsert\<close> calls on a store that starts empty, the history
  of every identity has at most five entries, and it is the newest five of the exchanges
  upserted for that identity, in their order: the oldest are dropped first.
\<close>

theorem history_bounded_fifo:
  "length (history_of (run_upserts detect calls Map.empty) k) \<le> 5 \<and>
   history_of (run_upserts detect calls Map.empty) k = newest 5 (exchanges_of k calls)"
proof -
  have "length (history_of Map.empty k) \<le> history_bound"
    by (simp add: history_of_def)
  then have "history_of (run_upserts detect calls Map.empty) k =
             newest history_bound (history_of Map.empty k @ exchanges_of k calls)"
    by (rule run_upserts_history)
  then have eq: "history_of (run_upserts detect calls Map.empty) k = newest 5 (exchanges_of k calls)"
    by (simp add: history_of_def history_bound_def)
  show ?thesis
    using eq length_newest [of 5 "exchanges_of k calls"] by simp
qed

theorem history_bounded_fifo_witness:
  "history_of (run_upserts (\<lambda>u. ''en'') (map numbered_call [1, 2, 3, 4, 5, 6, 7]) Map.empty)
     ''+1-800-123-4567''
   = map (\<lambda>n. snd (snd (numbered_call n))) [3, 4, 5, 6, 7]"
  using history_bounded_fifo [of "\<lambda>u. ''en''" "map numbered_call [1, 2, 3, 4, 5, 6, 7]"
      "''+1-800-123-4567''"]
  by (simp add: exchanges_of_def numbered_call_def newest_def)

section \<open>Properties of the Education page\<close>

lemma js_rem_nonneg: "0 \<le> a \<Longrightarrow> 0 < b \<Longrightarrow> js_rem a b = Some (a mod b)"
  by (cases "a = 0") (simp_all add: js_rem_def)

lemma handleNext_index:
  assumes "ed_questions st \<noteq> []" and "ed_currentIndex st = Some i" and "0 \<le> i"
  shows "ed_currentIndex (EducationPage_handleNext st) =
           Some ((i + 1) mod int (length (ed_questions st)))"
  using assms by (simp add: EducationPage_handleNext_def js_rem_nonneg)

lemma handleNext_questions [simp]: "ed_questions (EducationPage_handleNext st) = ed_questions st"
  by (simp add: EducationPage_handleNext_def)

lemma handleNext_in_bounds:
  assumes "index_in_bounds st"
  shows "index_in_bounds (EducationPage_handleNext st)"
proof -
  obtain i where i: "ed_currentIndex st = Some i" "0 \<le> i" "i < int (length (ed_questions st))"
    using assms by (auto simp add: index_in_bounds_def split: option.splits)
  then have ne: "ed_questions st \<noteq> []" by auto
  show ?thesis
    using handleNext_index [OF ne i(1,2)] ne
    by (simp add: index_in_bounds_def)
qed

lemma handleSubmit_keeps:
  "ed_questions (fst (EducationPage_handleSubmit fetch st)) = ed_questions st"
  "ed_currentIndex (fst (EducationPage_handleSubmit fetch st)) = ed_currentIndex st"
  by (simp_all add: EducationPage_handleSubmit_def Let_def split: sum.splits)

lemma step_in_bounds:
  assumes "index_in_bounds st" and "\<not> is_load ev"
  shows "index_in_bounds (education_step fetch ev st)"
proof (cases ev)
  case (QuestionsLoaded qs)
  then show ?thesis using assms by simp
next
  case (AnswerChanged s)
  then show ?thesis
    using assms by (auto simp add: index_in_bounds_def split: option.splits)
next
  case SubmitClicked
  then show ?thesis
    using assms by (auto simp add: index_in_bounds_def handleSubmit_keeps split: option.splits)
next
  case NextClicked
  then show ?thesis
    using assms handleNext_in_bounds [of st]
    by (simp add: click_next_def split: education_view.splits bool.splits)
qed

lemma run_in_bounds:
  "index_in_bounds st \<Longrightarrow> list_all (\<lambda>ev. \<not> is_load ev) evs \<Longrightarrow>
   index_in_bounds (education_run fetch evs st)"
  by (induction evs arbitrary: st) (simp_all add: step_in_bounds)

text \<open>Before the questions arrive the page offers no control: nothing changes.\<close>

lemma step_before_load:
  assumes "ed_questions st = []" and "\<not> is_load ev"
  shows "education_step fetch ev st = st"
  using assms
  by (cases ev) (simp_all add: click_next_def EducationPage_render_def)

lemma run_before_load:
  "ed_questions st = [] \<Longrightarrow> list_all (\<lambda>ev. \<not> is_load ev) evs \<Longrightarrow>
   education_run fetch evs st = st"
  by (induction evs arbitrary: st) (simp_all add: step_before_load)

lemma run_append:
  "education_run fetch (xs @ ys) st = education_run fetch ys (education_run fetch xs st)"
  by (induction xs arbitrary: st) simp_all

lemma run_questions:
  "list_all (\<lambda>ev. \<not> is_load ev) evs \<Longrightarrow>
   ed_questions (education_run fetch evs st) = ed_questions st"
proof (induction evs arbitrary: st)
  case Nil
  then show ?case by simp
next
  case (Cons ev evs)
  have "ed_questions (education_step fetch ev st) = ed_questions st"
    using Cons.prems
    by (cases ev)
      (simp_all add: click_next_def handleSubmit_keeps split: education_view.splits bool.splits)
  then show ?case using Cons by simp
qed

text \<open>
  C10: with a non-empty question list and an index \<open>i\<close> within it, \<open>handleNext\<close>
  moves to \<open>(i + 1) mod questions.length\<close>, which from the last question is the first.
  And once a non-empty list has been loaded into the page, after any typing, submitting
  and Next clicks before and after, the index is a number within the list.
\<close>

theorem question_index_in_bounds:
  "(ed_questions st \<noteq> [] \<and> ed_currentIndex st = Some i \<and> 0 \<le> i
      \<and> i < int (length (ed_questions st)) \<longrightarrow>
      ed_currentIndex (EducationPage_handleNext st) =
        Some ((i + 1) mod int (length (ed_questions st))) \<and>
      (i + 1 = int (length (ed_questions st)) \<longrightarrow>
         ed_currentIndex (EducationPage_handleNext st) = Some 0)) \<and>
   (qs \<noteq> [] \<and> list_all (\<lambda>ev. \<not> is_load ev) before \<and> list_all (\<lambda>ev. \<not> is_load ev) after \<longrightarrow>
      (\<exists>j. ed_currentIndex
              (education_run fetch (before @ QuestionsLoaded qs # after) EducationPage_initial)
            = Some j
          \<and> 0 \<le> j \<and> j < int (length qs)))"
proof (intro conjI impI)
  assume a: "ed_questions st \<noteq> [] \<and> ed_currentIndex st = Some i \<and> 0 \<le> i
               \<and> i < int (length (ed_questions st))"
  then show next_ix: "ed_currentIndex (EducationPage_handleNext st) =
                        Some ((i + 1) mod int (length (ed_questions st)))"
    by (simp add: handleNext_index)
  assume "i + 1 = int (length (ed_questions st))"
  then show "ed_currentIndex (EducationPage_handleNext st) = Some 0"
    using next_ix by simp
next
  assume b: "qs \<noteq> [] \<and> list_all (\<lambda>ev. \<not> is_load ev) before
               \<and> list_all (\<lambda>ev. \<not> is_load ev) after"
  let ?loaded = "EducationPage_initial\<lparr>ed_questions := qs\<rparr>"
  have "education_run fetch before EducationPage_initial = EducationPage_initial"
    using b by (simp add: run_before_load EducationPage_initial_def)
  then have run: "education_run fetch (before @ QuestionsLoaded qs # after) EducationPage_initial =
                  education_run fetch after ?loaded"
    by (simp add: run_append)
  have "index_in_bounds ?loaded"
    using b by (simp add: index_in_bounds_def EducationPage_initial_def)
  then have "index_in_bounds (education_run fetch after ?loaded)"
    using b by (simp add: run_in_bounds)
  moreover have "ed_questions (education_run fetch after ?loaded) = qs"
    using b by (simp add: run_questions)
  ultimately show "\<exists>j. ed_currentIndex
              (education_run fetch (before @ QuestionsLoaded qs # after) EducationPage_initial)
            = Some j
          \<and> 0 \<le> j \<and> j < int (length qs)"
    unfolding run by (auto simp add: index_in_bounds_def split: option.splits)
qed

theorem question_index_in_bounds_witness:
  "ed_currentIndex
     (EducationPage_handleNext
        (EducationPage_initial\<lparr>ed_questions := two_questions, ed_currentIndex := Some 1\<rparr>))
     = Some 0 \<and>
   (\<exists>j. ed_currentIndex (education_run helpful
      ([NextClicked] @ QuestionsLoaded two_questions #
        [AnswerChanged ''a'', SubmitClicked, NextClicked,
         AnswerChanged ''b'', SubmitClicked, NextClicked,
         AnswerChanged ''c'', SubmitClicked, NextClicked])
      EducationPage_initial) = Some j \<and> 0 \<le> j \<and> j < int (length two_questions)) \<and>
   ed_currentIndex (education_run helpful
      ([NextClicked] @ QuestionsLoaded two_questions #
        [AnswerChanged ''a'', SubmitClicked, NextClicked,
         AnswerChanged ''b'', SubmitClicked, NextClicked,
         AnswerChanged ''c'', SubmitClicked, NextClicked])
      EducationPage_initial) = Some 1"
proof -
  let ?st = "EducationPage_initial\<lparr>ed_questions := two_questions, ed_currentIndex := Some 1\<rparr>"
  let ?after = "[AnswerChanged ''a'', SubmitClicked, NextClicked,
                 AnswerChanged ''b'', SubmitClicked, NextClicked,
                 AnswerChanged ''c'', SubmitClicked, NextClicked]"
  note inst = question_index_in_bounds [of ?st 1 two_questions "[NextClicked]" ?after helpful]
  have pre: "ed_questions ?st \<noteq> [] \<and> ed_currentIndex ?st = Some 1 \<and> (0::int) \<le> 1
               \<and> 1 < int (length (ed_questions ?st))"
    by (simp add: two_questions_def)
  have quiet: "two_questions \<noteq> [] \<and> list_all (\<lambda>ev. \<not> is_load ev) [NextClicked]
                 \<and> list_all (\<lambda>ev. \<not> is_load ev) ?after"
    by (simp add: two_questions_def)
  have run: "ed_currentIndex (education_run helpful
      ([NextClicked] @ QuestionsLoaded two_questions # ?after) EducationPage_initial) = Some 1"
    by code_simp
  have "ed_currentIndex (EducationPage_handleNext ?st) =
          Some ((1 + 1) mod int (length (ed_questions ?st)))"
    using inst pre by blast
  then have last_to_first: "ed_currentIndex (EducationPage_handleNext ?st) = Some 0"
    by (simp add: two_questions_def)
  have bounded: "\<exists>j. ed_currentIndex (education_run helpful
      ([NextClicked] @ QuestionsLoaded two_questions # ?after) EducationPage_initial) = Some j
        \<and> 0 \<le> j \<and> j < int (length two_questions)"
    using inst quiet by blast
  show ?thesis
    using last_to_first bounded run by (intro conjI)
qed

section \<open>Properties of the indicator bar\<close>

lemma js_get_verdict_level:
  "js_get (verdict_with l members) ''riskLevel'' = Inr (Str (level_name l))"
  by (simp add: verdict_with_def obj_get_def)

lemma js_get_verdict_other:
  "k \<noteq> ''riskLevel'' \<Longrightarrow> js_get (verdict_with l members) k = Inr (obj_get members k)"
  by (simp add: verdict_with_def obj_get_def)

lemma percentage_of_level:
  "\<exists>p. SentinelApp_getRiskPercentage (Str (level_name l)) = Inr (Num p)"
  by (cases l) (simp_all add: SentinelApp_percentages)

lemma label_of_level:
  "\<exists>s. SentinelApp_formatRiskLevel (Str (level_name l)) = Inr (Str s)"
  by (cases l) (simp_all add: SentinelApp_labels)

lemma description_of_level:
  "\<exists>s. SentinelApp_getRiskDescription (Str (level_name l)) = Inr (Str s)"
  by (cases l) (simp_all add: SentinelApp_getRiskDescription_def obj_get_def js_or_def)

lemma dom_text_ok: "stringifiable v \<Longrightarrow> \<exists>t. dom_text v = Inr t"
  by (cases v) (simp_all add: js_to_string_def)

lemma and_then_ok: "snd (f sec) = None \<Longrightarrow> and_then f g sec = g (fst (f sec))"
  by (cases "f sec") (simp add: and_then_def)

lemma keeps_and_then:
  assumes "keeps_indicator f" and "keeps_indicator g"
  shows "keeps_indicator (and_then f g)"
  unfolding keeps_indicator_def
proof
  fix sec
  obtain sec' err where f: "f sec = (sec', err)" by (cases "f sec")
  have f': "rs_risk_value sec' = rs_risk_value sec \<and> rs_risk_fill sec' = rs_risk_fill sec
              \<and> rs_risk_description sec' = rs_risk_description sec"
    using assms(1) f unfolding keeps_indicator_def by (metis fst_conv)
  show "rs_risk_value (fst (and_then f g sec)) = rs_risk_value sec
          \<and> rs_risk_fill (fst (and_then f g sec)) = rs_risk_fill sec
          \<and> rs_risk_description (fst (and_then f g sec)) = rs_risk_description sec"
  proof (cases err)
    case None
    then have "and_then f g sec = g sec'" using f by (simp add: and_then_def)
    then show ?thesis using assms(2) f' unfolding keeps_indicator_def by simp
  next
    case (Some e)
    then have "and_then f g sec = (sec', Some e)" using f by (simp add: and_then_def)
    then show ?thesis using f' by simp
  qed
qed

lemma and_then_keeps_fill:
  assumes "keeps_indicator g"
  shows "rs_risk_fill (fst (and_then f g sec)) = rs_risk_fill (fst (f sec))"
proof (cases "f sec")
  case (Pair sec' err)
  then show ?thesis
    using assms unfolding keeps_indicator_def
    by (cases err) (simp_all add: and_then_def)
qed

lemma keeps_assign:
  assumes "\<And>x sec. rs_risk_value (store x sec) = rs_risk_value sec
                   \<and> rs_risk_fill (store x sec) = rs_risk_fill sec
                   \<and> rs_risk_description (store x sec) = rs_risk_description sec"
  shows "keeps_indicator (assign rhs store)"
  using assms by (cases rhs) (simp_all add: keeps_indicator_def assign_def)

lemma keeps_update_badge: "keeps_indicator (update_badge result)"
proof -
  have "keeps_indicator (and_then
             (assign (attempt (attempt (js_get result ''riskLevel'') js_to_string)
                        (\<lambda>lvl. Inr (''badge badge-'' @ lvl)))
                     set_badge_class)
             (assign (attempt (attempt (js_get result ''riskLevel'') SentinelApp_formatRiskLevel)
                        dom_text)
                     set_badge_text))"
    by (intro keeps_and_then keeps_assign) (simp_all add: set_badge_class_def set_badge_text_def)
  then show ?thesis
    by (simp add: keeps_indicator_def update_badge_def)
qed

lemma keeps_update_summary: "keeps_indicator (update_summary result)"
proof -
  have "keeps_indicator (assign (attempt (js_get result ''summary'') dom_text)
                  (\<lambda>t sec. sec\<lparr>rs_summary := Some t\<rparr>))"
    by (rule keeps_assign) simp
  then show ?thesis
    by (simp add: keeps_indicator_def update_summary_def)
qed

lemma keeps_update_evidence: "keeps_indicator (update_evidence result)"
proof -
  have "keeps_indicator (assign (js_map SentinelApp_evidence_row ev)
                           (\<lambda>rows sec. sec\<lparr>rs_tbody := Some rows\<rparr>))" for ev
    by (rule keeps_assign) simp
  then show ?thesis
    by (simp add: keeps_indicator_def update_evidence_def split: sum.splits)
qed

lemma keeps_update_recommendations: "keeps_indicator (update_recommendations result)"
proof -
  have "keeps_indicator (assign (js_map js_to_string recs)
                           (\<lambda>items sec. sec\<lparr>rs_result_list := Some items\<rparr>))" for recs
    by (rule keeps_assign) simp
  then show ?thesis
    by (simp add: keeps_indicator_def update_recommendations_def split: sum.splits)
qed

lemma keeps_show_section: "keeps_indicator show_section"
  by (simp add: keeps_indicator_def show_section_def)

lemma update_badge_ok: "snd (update_badge (verdict_with l members) sec) = None"
proof -
  obtain s where s: "SentinelApp_formatRiskLevel (Str (level_name l)) = Inr (Str s)"
    using label_of_level by blast
  show ?thesis
    by (simp add: update_badge_def and_then_def assign_def attempt_def js_get_verdict_level
          js_to_string_def s)
qed

lemma update_summary_ok:
  assumes "stringifiable (obj_get members ''summary'')"
  shows "snd (update_summary (verdict_with l members) sec) = None"
proof -
  obtain t where "dom_text (obj_get members ''summary'') = Inr t"
    using dom_text_ok [OF assms] by blast
  then show ?thesis
    by (simp add: update_summary_def assign_def attempt_def js_get_verdict_other)
qed

lemma update_risk_indicator_width:
  assumes "rs_risk_value sec \<noteq> None" and "rs_risk_fill sec \<noteq> None"
    and "rs_risk_description sec \<noteq> None"
    and "SentinelApp_getRiskPercentage (Str (level_name l)) = Inr (Num p)"
  shows "map_option fill_width (rs_risk_fill (fst (update_risk_indicator (verdict_with l members) sec)))
           = Some (show_int p @ ''%'')"
proof -
  obtain s where s: "SentinelApp_formatRiskLevel (Str (level_name l)) = Inr (Str s)"
    using label_of_level by blast
  obtain d where d: "SentinelApp_getRiskDescription (Str (level_name l)) = Inr (Str d)"
    using description_of_level by blast
  show ?thesis
    using assms
    by (auto simp add: update_risk_indicator_def and_then_def assign_def attempt_def
          js_get_verdict_level js_to_string_def s d set_fill_width_def set_fill_data_risk_def)
qed

lemma displayResults_section:
  assumes "console_results pg = Some sec"
  shows "console_results (fst (SentinelApp_displayResults result pg)) =
           Some (fst (and_then (update_badge result)
                 (and_then (update_summary result)
                 (and_then (update_risk_indicator result)
                 (and_then (update_evidence result)
                 (and_then (update_recommendations result)
                  show_section)))) sec))"
  using assms by (simp add: SentinelApp_displayResults_def split: prod.splits)

lemma displayResults_bar_width:
  assumes "reaches_indicator pg members"
    and "SentinelApp_getRiskPercentage (Str (level_name l)) = Inr (Num p)"
  shows "bar_width (fst (SentinelApp_displayResults (verdict_with l members) pg))
           = Some (show_int p @ ''%'')"
proof -
  let ?r = "verdict_with l members"
  obtain sec where sec: "console_results pg = Some sec"
    and present: "rs_risk_value sec \<noteq> None" "rs_risk_fill sec \<noteq> None"
      "rs_risk_description sec \<noteq> None"
    and summary: "stringifiable (obj_get members ''summary'')"
    using assms(1) by (auto simp add: reaches_indicator_def split: option.splits)
  let ?rest = "and_then (update_evidence ?r) (and_then (update_recommendations ?r) show_section)"
  let ?sec1 = "fst (update_badge ?r sec)"
  let ?sec2 = "fst (update_summary ?r ?sec1)"
  have keeps_rest: "keeps_indicator ?rest"
    by (intro keeps_and_then keeps_update_evidence keeps_update_recommendations keeps_show_section)
  have present2: "rs_risk_value ?sec2 \<noteq> None" "rs_risk_fill ?sec2 \<noteq> None"
      "rs_risk_description ?sec2 \<noteq> None"
    using present keeps_update_badge [of ?r] keeps_update_summary [of ?r]
    unfolding keeps_indicator_def by simp_all
  have chain: "and_then (update_badge ?r)
                 (and_then (update_summary ?r)
                 (and_then (update_risk_indicator ?r) ?rest)) sec
               = and_then (update_risk_indicator ?r) ?rest ?sec2"
    by (simp add: and_then_ok update_badge_ok update_summary_ok [OF summary])
  have "rs_risk_fill (fst (and_then (update_risk_indicator ?r) ?rest ?sec2))
          = rs_risk_fill (fst (update_risk_indicator ?r ?sec2))"
    using keeps_rest by (rule and_then_keeps_fill)
  then have "map_option fill_width
               (rs_risk_fill (fst (and_then (update_risk_indicator ?r) ?rest ?sec2)))
             = Some (show_int p @ ''%'')"
    using update_risk_indicator_width [OF present2 assms(2)] by simp
  then have "map_option fill_width
               (rs_risk_fill (fst (and_then (update_badge ?r)
                 (and_then (update_summary ?r)
                 (and_then (update_risk_indicator ?r) ?rest)) sec)))
             = Some (show_int p @ ''%'')"
    by (simp only: chain)
  then show ?thesis
    by (simp only: bar_width_def displayResults_section [OF sec] option.case)
qed

lemma map_try_total:
  "list_all (\<lambda>x. \<exists>y. f x = Inr y) xs \<Longrightarrow> \<exists>ys. map_try f xs = Inr ys"
  by (induction xs) (auto simp add: attempt_def)

lemma list_section_renders:
  assumes "array_or_absent ok v" and "\<And>x. ok x \<Longrightarrow> \<exists>y. f x = Inr y"
  shows "\<exists>rows. AnalysisPage_list_section f v = Rendered rows"
proof (cases v)
  case (Arr xs)
  then have "list_all ok xs" using assms(1) by (simp add: array_or_absent_def)
  then have "list_all (\<lambda>x. \<exists>y. f x = Inr y) xs"
    using assms(2) by (simp add: list_all_iff)
  then obtain ys where "map_try f xs = Inr ys"
    using map_try_total by blast
  then show ?thesis using Arr by (simp add: AnalysisPage_list_section_def)
qed (use assms(1) in \<open>simp_all add: array_or_absent_def AnalysisPage_list_section_def\<close>)

lemma evidence_cells_ok: "\<not> nullish item \<Longrightarrow> \<exists>c. AnalysisPage_evidence_cells item = Inr c"
  by (cases item) (simp_all add: AnalysisPage_evidence_cells_def attempt_def)

lemma AnalysisPage_results_width:
  assumes "lists_in_shape members"
    and "SentinelApp_getRiskPercentage (Str (level_name l)) = Inr (Num p)"
  shows "\<exists>v. AnalysisPage_results (verdict_with l members) = Rendered (Shown v)
            \<and> rv_fill_width v = show_int p @ ''%''"
proof -
  obtain s where s: "SentinelApp_formatRiskLevel (Str (level_name l)) = Inr (Str s)"
    using label_of_level by blast
  obtain d where d: "SentinelApp_getRiskDescription (Str (level_name l)) = Inr (Str d)"
    using description_of_level by blast
  obtain rows where rows:
    "AnalysisPage_list_section AnalysisPage_evidence_cells (obj_get members ''evidence'')
       = Rendered rows"
    using assms(1) list_section_renders [of "\<lambda>item. \<not> nullish item" _ AnalysisPage_evidence_cells]
      evidence_cells_ok
    unfolding lists_in_shape_def by blast
  obtain items where items:
    "AnalysisPage_list_section Inr (obj_get members ''recommendations'') = Rendered items"
    using assms(1) list_section_renders [of "\<lambda>rec. True" _ Inr]
    unfolding lists_in_shape_def by blast
  have truthy: "truthy (verdict_with l members)"
    by (simp add: verdict_with_def)
  show ?thesis
    using truthy rows items
    by (simp add: AnalysisPage_results_def attempt_def js_get_verdict_level js_get_verdict_other
          AnalysisPage_getRiskBadgeClass_def js_to_string_def same_formatRiskLevel
          same_getRiskPercentage same_getRiskDescription s d assms(2))
qed

text \<open>
  C5: the percentage keeps the order low < medium < high < critical, and so does the
  bar. For two levels with the first strictly below the second, \<open>getRiskPercentage\<close>
  returns numbers \<open>p < q\<close> in both frontends. When \<open>displayResults\<close> reaches the risk
  indicator of its page, the widths it assigns for verdicts of the two levels are
  \<open>p%\<close> and \<open>q%\<close>; when \<open>AnalysisPage\<close> returns its tree, the widths in the trees of
  the two verdicts are \<open>p%\<close> and \<open>q%\<close>.
\<close>

theorem percentage_monotone:
  assumes "level_rank a < level_rank b"
  shows "\<exists>p q. p < q \<and>
           SentinelApp_getRiskPercentage (Str (level_name a)) = Inr (Num p) \<and>
           SentinelApp_getRiskPercentage (Str (level_name b)) = Inr (Num q) \<and>
           AnalysisPage_getRiskPercentage (Str (level_name a)) = Inr (Num p) \<and>
           AnalysisPage_getRiskPercentage (Str (level_name b)) = Inr (Num q) \<and>
           (reaches_indicator pg_a members_a \<and> reaches_indicator pg_b members_b \<longrightarrow>
              bar_width (fst (SentinelApp_displayResults (verdict_with a members_a) pg_a))
                = Some (show_int p @ ''%'') \<and>
              bar_width (fst (SentinelApp_displayResults (verdict_with b members_b) pg_b))
                = Some (show_int q @ ''%'')) \<and>
           (lists_in_shape members_a \<and> lists_in_shape members_b \<longrightarrow>
              (\<exists>va vb.
                 AnalysisPage_results (verdict_with a members_a) = Rendered (Shown va) \<and>
                 AnalysisPage_results (verdict_with b members_b) = Rendered (Shown vb) \<and>
                 rv_fill_width va = show_int p @ ''%'' \<and>
                 rv_fill_width vb = show_int q @ ''%''))"
proof -
  obtain p where p: "SentinelApp_getRiskPercentage (Str (level_name a)) = Inr (Num p)"
    using percentage_of_level by blast
  obtain q where q: "SentinelApp_getRiskPercentage (Str (level_name b)) = Inr (Num q)"
    using percentage_of_level by blast
  have less: "p < q"
    using assms p q
    by (cases a; cases b) (simp_all add: SentinelApp_percentages)
  have bars: "reaches_indicator pg_a members_a \<and> reaches_indicator pg_b members_b \<longrightarrow>
              bar_width (fst (SentinelApp_displayResults (verdict_with a members_a) pg_a))
                = Some (show_int p @ ''%'') \<and>
              bar_width (fst (SentinelApp_displayResults (verdict_with b members_b) pg_b))
                = Some (show_int q @ ''%'')"
    using displayResults_bar_width p q by blast
  have trees: "lists_in_shape members_a \<and> lists_in_shape members_b \<longrightarrow>
              (\<exists>va vb.
                 AnalysisPage_results (verdict_with a members_a) = Rendered (Shown va) \<and>
                 AnalysisPage_results (verdict_with b members_b) = Rendered (Shown vb) \<and>
                 rv_fill_width va = show_int p @ ''%'' \<and>
                 rv_fill_width vb = show_int q @ ''%'')"
    using AnalysisPage_results_width [of members_a a p] AnalysisPage_results_width [of members_b b q]
      p q by blast
  show ?thesis
    using less p q bars trees by (auto simp add: same_getRiskPercentage)
qed

lemma show_int_60: "show_int 60 = ''60''"
  by code_simp

lemma show_int_85: "show_int 85 = ''85''"
  by code_simp

theorem percentage_monotone_witness:
  "level_rank Medium < level_rank High \<and>
   SentinelApp_getRiskPercentage (Str ''medium'') = Inr (Num 60) \<and>
   SentinelApp_getRiskPercentage (Str ''high'') = Inr (Num 85) \<and>
   AnalysisPage_getRiskPercentage (Str ''medium'') = Inr (Num 60) \<and>
   AnalysisPage_getRiskPercentage (Str ''high'') = Inr (Num 85) \<and>
   bar_width (fst (SentinelApp_displayResults (verdict_with Medium plain_members) full_page))
     = Some ''60%'' \<and>
   bar_width (fst (SentinelApp_displayResults (verdict_with High plain_members) full_page))
     = Some ''85%'' \<and>
   (\<exists>va vb. AnalysisPage_results (verdict_with Medium plain_members) = Rendered (Shown va) \<and>
            AnalysisPage_results (verdict_with High plain_members) = Rendered (Shown vb) \<and>
            rv_fill_width va = ''60%'' \<and> rv_fill_width vb = ''85%'')"
proof -
  have rank: "level_rank Medium < level_rank High" by simp
  have reach: "reaches_indicator full_page plain_members"
    by (simp add: reaches_indicator_def full_page_def plain_members_def obj_get_def)
  have shape: "lists_in_shape plain_members"
    by (simp add: lists_in_shape_def array_or_absent_def plain_members_def obj_get_def)
  obtain p q where pq: "p < q"
    and p: "SentinelApp_getRiskPercentage (Str (level_name Medium)) = Inr (Num p)"
    and q: "SentinelApp_getRiskPercentage (Str (level_name High)) = Inr (Num q)"
    and bars: "bar_width (fst (SentinelApp_displayResults (verdict_with Medium plain_members) full_page))
                = Some (show_int p @ ''%'')"
              "bar_width (fst (SentinelApp_displayResults (verdict_with High plain_members) full_page))
                = Some (show_int q @ ''%'')"
    and trees: "\<exists>va vb.
                 AnalysisPage_results (verdict_with Medium plain_members) = Rendered (Shown va) \<and>
                 AnalysisPage_results (verdict_with High plain_members) = Rendered (Shown vb) \<and>
                 rv_fill_width va = show_int p @ ''%'' \<and>
                 rv_fill_width vb = show_int q @ ''%''"
    using percentage_monotone [OF rank, of full_page plain_members full_page plain_members]
      reach shape by blast
  have p60: "p = 60" using p by (simp add: SentinelApp_percentages)
  have q85: "q = 85" using q by (simp add: SentinelApp_percentages)
  show ?thesis
    using rank bars trees
    by (simp add: p60 q85 show_int_60 show_int_85 SentinelApp_percentages same_getRiskPercentage)
qed

end
